theory Spec2Isabelle
  imports Complex_Main "HOL-Library.Sublist"
begin

text \<open>
  A model of the aspect-ratio extraction pipeline of the background worker: the
  functions \<open>normalizeAspectRatioText\<close>, \<open>findAspectRatioBlocks\<close>,
  \<open>parseRatiosFromBlock\<close>, \<open>uniqueRatios\<close>, \<open>ratioToNumber\<close>, \<open>mapRatioToType\<close>,
  \<open>scoreForPrimary\<close>, \<open>choosePrimaryRatio\<close>, \<open>parseAllAspectRatiosFromImdb\<close> and the
  part of \<open>fetchImdbAspectRatio\<close> that follows the network request. The functions are
  pure apart from that request; what they use of JavaScript (strings, regular
  expressions, double-precision numbers) is modelled first.
\<close>

section \<open>JavaScript strings\<close>

text \<open>
  A JavaScript string is a sequence of UTF-16 code units; a code unit is modelled as a
  natural number, so that the separator characters U+2022 and U+00B7 and the Unicode
  white space of the class \<open>\s\<close> are single elements, as they are for the program.
  \<open>str\<close> turns an ASCII literal into such a sequence.
\<close>

type_synonym jsstring = "nat list"

definition str :: "string \<Rightarrow> jsstring" where
  "str s = map of_char s"

text \<open>
  The character classes of ECMAScript: \<open>\s\<close> (WhiteSpace and LineTerminator, which is
  also what \<open>trim\<close> strips), \<open>\d\<close>, the word characters of \<open>\b\<close>, and the line
  terminators that \<open>.\<close> does not match.
\<close>

definition isSpace :: "nat \<Rightarrow> bool" where
  "isSpace c \<longleftrightarrow>
     c = 9 \<or> c = 10 \<or> c = 11 \<or> c = 12 \<or> c = 13 \<or> c = 32 \<or> c = 160 \<or> c = 5760
     \<or> (8192 \<le> c \<and> c \<le> 8202) \<or> c = 8232 \<or> c = 8233 \<or> c = 8239 \<or> c = 8287
     \<or> c = 12288 \<or> c = 65279"

definition isDigit :: "nat \<Rightarrow> bool" where
  "isDigit c \<longleftrightarrow> 48 \<le> c \<and> c \<le> 57"

definition isWordChar :: "nat \<Rightarrow> bool" where
  "isWordChar c \<longleftrightarrow> (97 \<le> c \<and> c \<le> 122) \<or> (65 \<le> c \<and> c \<le> 90) \<or> isDigit c \<or> c = 95"

definition isLineTerminator :: "nat \<Rightarrow> bool" where
  "isLineTerminator c \<longleftrightarrow> c = 10 \<or> c = 13 \<or> c = 8232 \<or> c = 8233"

definition trim :: "jsstring \<Rightarrow> jsstring" where
  "trim s = rev (dropWhile isSpace (rev (dropWhile isSpace s)))"

text \<open>
  \<open>toLowerCase\<close>. The program only tests the lower-cased text against ASCII patterns
  and never outputs it, so the model is exact on what those tests can see: the letters
  A to Z, and the two code units outside ASCII whose lower case contains an ASCII
  letter (U+0130, which becomes \<open>i\<close> followed by U+0307, and the Kelvin sign U+212A,
  which becomes \<open>k\<close>). Every other code unit outside ASCII is mapped by Unicode to
  code units outside ASCII that are neither white space nor word characters for the
  program's patterns; the model leaves it unchanged.
\<close>

definition lowerUnit :: "nat \<Rightarrow> jsstring" where
  "lowerUnit c =
     (if 65 \<le> c \<and> c \<le> 90 then [c + 32]
      else if c = 304 then [105, 775]
      else if c = 8490 then [107]
      else [c])"

definition toLowerCase :: "jsstring \<Rightarrow> jsstring" where
  "toLowerCase s = concat (map lowerUnit s)"

text \<open>\<open>s.indexOf(sub)\<close>, with \<open>None\<close> for \<open>-1\<close>, and \<open>s.slice(a, b)\<close> for \<open>0 \<le> a\<close>.\<close>

fun startsWith :: "jsstring \<Rightarrow> jsstring \<Rightarrow> bool" where
  "startsWith s [] = True"
| "startsWith [] (c # cs) = False"
| "startsWith (x # xs) (c # cs) = (x = c \<and> startsWith xs cs)"

fun indexOfFrom :: "jsstring \<Rightarrow> jsstring \<Rightarrow> nat \<Rightarrow> nat option" where
  "indexOfFrom [] sub k = (if sub = [] then Some k else None)"
| "indexOfFrom (c # cs) sub k =
     (if startsWith (c # cs) sub then Some k else indexOfFrom cs sub (Suc k))"

definition indexOf :: "jsstring \<Rightarrow> jsstring \<Rightarrow> nat option" where
  "indexOf s sub = indexOfFrom s sub 0"

definition slice :: "jsstring \<Rightarrow> nat \<Rightarrow> nat \<Rightarrow> jsstring" where
  "slice s a b = take (b - a) (drop a s)"

section \<open>Regular expressions\<close>

text \<open>
  The regular expressions of the program are values of the datatype \<open>regex\<close>, and
  \<open>rmatch\<close> is the backtracking matcher of ECMAScript for them. A matcher state is the
  list of the captures made so far, the code unit before the current position (\<open>None\<close>
  at the start of the input; \<open>^\<close> and \<open>\b\<close> look at it) and the rest of the input.
  \<open>rmatch r ci st\<close> is the list of the states in which a match of \<open>r\<close> from \<open>st\<close> can
  end, in the order in which backtracking tries them: the head is the match that
  ECMAScript reports. \<open>ci\<close> is the flag \<open>i\<close>. For the code units of the program's
  patterns, which are ASCII wherever the flag is set, canonicalization only folds the
  ASCII letters: a code unit outside ASCII is never canonicalized into ASCII.
\<close>

definition canonicalize :: "bool \<Rightarrow> nat \<Rightarrow> nat" where
  "canonicalize ci c = (if ci \<and> 97 \<le> c \<and> c \<le> 122 then c - 32 else c)"

datatype cclass = AnyChar | Dot | Space | Digit | Lit nat | OneOf "nat list" | NoneOf "nat list"

fun cmatch :: "bool \<Rightarrow> cclass \<Rightarrow> nat \<Rightarrow> bool" where
  "cmatch ci AnyChar c = True"
| "cmatch ci Dot c = (\<not> isLineTerminator c)"
| "cmatch ci Space c = isSpace c"
| "cmatch ci Digit c = isDigit c"
| "cmatch ci (Lit a) c = (canonicalize ci a = canonicalize ci c)"
| "cmatch ci (OneOf as) c = (canonicalize ci c \<in> set (map (canonicalize ci) as))"
| "cmatch ci (NoneOf as) c = (canonicalize ci c \<notin> set (map (canonicalize ci) as))"

text \<open>
  \<open>AnyChar\<close> is \<open>[\s\S]\<close>, \<open>Star\<close> is the greedy \<open>*\<close>, \<open>StarLazy\<close> is \<open>*?\<close>, \<open>Opt\<close> is
  \<open>?\<close>, \<open>Group\<close> is a capturing group, \<open>Bol\<close> is \<open>^\<close>, \<open>Eol\<close> is \<open>$\<close> (the program never
  sets the flag \<open>m\<close>) and \<open>WordB\<close> is \<open>\b\<close>.
\<close>

datatype regex =
    Eps
  | Atom cclass
  | Seq regex regex
  | Alt regex regex
  | Star regex
  | StarLazy regex
  | Opt regex
  | Group regex
  | Bol
  | Eol
  | WordB

type_synonym mstate = "jsstring list \<times> nat option \<times> jsstring"

definition rest :: "mstate \<Rightarrow> jsstring" where
  "rest st = snd (snd st)"

text \<open>
  An iteration of a starred expression that consumes nothing is rejected by ECMAScript;
  \<open>progress\<close> is that check. Every accepted iteration therefore shortens the rest, and
  the number of iterations is at most the length of the rest at the start, which is
  the bound the two iteration functions are given.
\<close>

definition progress :: "mstate \<Rightarrow> mstate \<Rightarrow> bool" where
  "progress st st' \<longleftrightarrow> length (rest st') < length (rest st)"

primrec star_greedy :: "(mstate \<Rightarrow> mstate list) \<Rightarrow> nat \<Rightarrow> mstate \<Rightarrow> mstate list" where
  "star_greedy f 0 st = [st]"
| "star_greedy f (Suc n) st =
     concat (map (star_greedy f n) (filter (progress st) (f st))) @ [st]"

primrec star_lazy :: "(mstate \<Rightarrow> mstate list) \<Rightarrow> nat \<Rightarrow> mstate \<Rightarrow> mstate list" where
  "star_lazy f 0 st = [st]"
| "star_lazy f (Suc n) st =
     st # concat (map (star_lazy f n) (filter (progress st) (f st)))"

definition wordBefore :: "nat option \<Rightarrow> bool" where
  "wordBefore p = (case p of None \<Rightarrow> False | Some c \<Rightarrow> isWordChar c)"

definition wordAfter :: "jsstring \<Rightarrow> bool" where
  "wordAfter r = (case r of [] \<Rightarrow> False | c # _ \<Rightarrow> isWordChar c)"

primrec rmatch :: "regex \<Rightarrow> bool \<Rightarrow> mstate \<Rightarrow> mstate list" where
  "rmatch Eps ci st = [st]"
| "rmatch (Atom k) ci st =
     (case rest st of
        [] \<Rightarrow> []
      | c # cs \<Rightarrow> if cmatch ci k c then [(fst st, Some c, cs)] else [])"
| "rmatch (Seq a b) ci st = concat (map (rmatch b ci) (rmatch a ci st))"
| "rmatch (Alt a b) ci st = rmatch a ci st @ rmatch b ci st"
| "rmatch (Star a) ci st = star_greedy (rmatch a ci) (length (rest st)) st"
| "rmatch (StarLazy a) ci st = star_lazy (rmatch a ci) (length (rest st)) st"
| "rmatch (Opt a) ci st = rmatch a ci st @ [st]"
| "rmatch (Group a) ci st =
     map (\<lambda>st'. (fst st' @ [take (length (rest st) - length (rest st')) (rest st)], snd st'))
       (rmatch a ci st)"
| "rmatch Bol ci st = (if fst (snd st) = None then [st] else [])"
| "rmatch Eol ci st = (if rest st = [] then [st] else [])"
| "rmatch WordB ci st = (if wordBefore (fst (snd st)) \<noteq> wordAfter (rest st) then [st] else [])"

definition Plus :: "regex \<Rightarrow> regex" where
  "Plus r = Seq r (Star r)"

definition lits :: "string \<Rightarrow> regex" where
  "lits s = foldr (\<lambda>c r. Seq (Atom (Lit (of_char c))) r) s Eps"

fun seqs :: "regex list \<Rightarrow> regex" where
  "seqs [] = Eps"
| "seqs [r] = r"
| "seqs (r # rs) = Seq r (seqs rs)"

fun alts :: "regex list \<Rightarrow> regex" where
  "alts [] = Eps"
| "alts [r] = r"
| "alts (r # rs) = Alt r (alts rs)"

text \<open>
  \<open>scan\<close> is \<open>RegExp.prototype.exec\<close> from the current position: it tries the positions
  from left to right and returns the number of code units skipped together with the
  final state of the first match. \<open>jsMatch\<close> is \<open>s.match(re)\<close> for a pattern without
  the flag \<open>g\<close> (the array of the matched text and the captures, \<open>None\<close> for \<open>null\<close>),
  \<open>test\<close> is \<open>re.test(s)\<close> and \<open>replaceFirst\<close> is \<open>s.replace(re, rep)\<close> for such a
  pattern and a replacement text without \<open>$\<close>.
\<close>

fun scan :: "regex \<Rightarrow> bool \<Rightarrow> nat option \<Rightarrow> jsstring \<Rightarrow> (nat \<times> mstate) option" where
  "scan r ci p [] = (case rmatch r ci ([], p, []) of [] \<Rightarrow> None | st # _ \<Rightarrow> Some (0, st))"
| "scan r ci p (c # cs) =
     (case rmatch r ci ([], p, c # cs) of
        st # _ \<Rightarrow> Some (0, st)
      | [] \<Rightarrow> (case scan r ci (Some c) cs of None \<Rightarrow> None | Some (k, st) \<Rightarrow> Some (Suc k, st)))"

definition jsMatch :: "regex \<Rightarrow> bool \<Rightarrow> jsstring \<Rightarrow> jsstring list option" where
  "jsMatch r ci s =
     (case scan r ci None s of
        None \<Rightarrow> None
      | Some (k, st) \<Rightarrow> Some (take (length s - k - length (rest st)) (drop k s) # fst st))"

definition test :: "regex \<Rightarrow> bool \<Rightarrow> jsstring \<Rightarrow> bool" where
  "test r ci s = (scan r ci None s \<noteq> None)"

definition replaceFirst :: "regex \<Rightarrow> bool \<Rightarrow> jsstring \<Rightarrow> jsstring \<Rightarrow> jsstring" where
  "replaceFirst r ci rep s =
     (case scan r ci None s of
        None \<Rightarrow> s
      | Some (k, st) \<Rightarrow> take k s @ rep @ rest st)"

text \<open>
  With the flag \<open>g\<close>, \<open>replace\<close> and \<open>match\<close> take the matches from left to right, each
  search starting where the previous match ended; after an empty match the search
  moves one code unit on.
\<close>

function replaceAllFrom :: "regex \<Rightarrow> bool \<Rightarrow> jsstring \<Rightarrow> nat option \<Rightarrow> jsstring \<Rightarrow> jsstring" where
  "replaceAllFrom r ci rep p [] = (case rmatch r ci ([], p, []) of [] \<Rightarrow> [] | st # _ \<Rightarrow> rep)"
| "replaceAllFrom r ci rep p (c # cs) =
     (case rmatch r ci ([], p, c # cs) of
        [] \<Rightarrow> c # replaceAllFrom r ci rep (Some c) cs
      | st # _ \<Rightarrow>
          (if length cs < length (rest st) then rep @ c # replaceAllFrom r ci rep (Some c) cs
           else rep @ replaceAllFrom r ci rep (fst (snd st)) (drop (length cs - length (rest st)) cs)))"
  by pat_completeness auto
termination
  by (relation "measure (\<lambda>(r, ci, rep, p, s). length s)") auto

definition replaceAll :: "regex \<Rightarrow> bool \<Rightarrow> jsstring \<Rightarrow> jsstring \<Rightarrow> jsstring" where
  "replaceAll r ci rep s = replaceAllFrom r ci rep None s"

function matchAllFrom :: "regex \<Rightarrow> bool \<Rightarrow> nat option \<Rightarrow> jsstring \<Rightarrow> jsstring list" where
  "matchAllFrom r ci p [] = (case rmatch r ci ([], p, []) of [] \<Rightarrow> [] | st # _ \<Rightarrow> [[]])"
| "matchAllFrom r ci p (c # cs) =
     (case rmatch r ci ([], p, c # cs) of
        [] \<Rightarrow> matchAllFrom r ci (Some c) cs
      | st # _ \<Rightarrow>
          (if length cs < length (rest st) then [] # matchAllFrom r ci (Some c) cs
           else take (Suc (length cs) - length (rest st)) (c # cs)
                # matchAllFrom r ci (fst (snd st)) (drop (length cs - length (rest st)) cs)))"
  by pat_completeness auto
termination
  by (relation "measure (\<lambda>(r, ci, p, s). length s)") auto

definition matchAll :: "regex \<Rightarrow> bool \<Rightarrow> jsstring \<Rightarrow> jsstring list" where
  "matchAll r ci s = matchAllFrom r ci None s"

section \<open>JavaScript numbers\<close>

text \<open>
  A Number is an IEEE 754 double. A finite double is an integer multiple of a power of
  two: \<open>Fin m e\<close> is the double \<open>m * 2^e\<close>, kept in the normal form in which \<open>m\<close> is odd,
  or \<open>m = 0\<close> and \<open>e = 0\<close>, so that equal doubles are equal terms. All arithmetic is exact
  integer arithmetic followed by the rounding of IEEE 754 (to nearest, ties to even,
  53 significant bits, exponents down to the subnormals and up to overflow). The sign
  of zero is not represented: no function of the program divides by a negative zero or
  prints one.
\<close>

datatype number = Fin int int | PosInf | NegInf | NaN

function normalize :: "int \<Rightarrow> int \<Rightarrow> number" where
  "normalize m e =
     (if m = 0 then Fin 0 0 else if even m then normalize (m div 2) (e + 1) else Fin m e)"
  by pat_completeness auto
termination
  by (relation "measure (\<lambda>(m, e). nat \<bar>m\<bar>)") auto

declare normalize.simps [simp del]

text \<open>\<open>bitlen n\<close> is the number of binary digits of \<open>n\<close>.\<close>

function bitlen :: "int \<Rightarrow> int" where
  "bitlen n = (if n \<le> 0 then 0 else 1 + bitlen (n div 2))"
  by pat_completeness auto
termination
  by (relation "measure nat") auto

declare bitlen.simps [simp del]

text \<open>
  \<open>roundRatio a b\<close> is the double nearest to the rational \<open>a / b\<close>, for \<open>0 \<le> a\<close> and
  \<open>0 < b\<close>. \<open>floorLog2 a b\<close> is the binary exponent of \<open>a / b\<close>; the unit in the last
  place is \<open>2^s\<close> with \<open>s = max e (-1022) - 52\<close>; \<open>roundHalfEven n dn\<close> is the integer
  nearest to \<open>n / dn\<close>, the even one of two; a result of \<open>2^1024\<close> or more is infinite.
\<close>

definition adjustLog2 :: "int \<Rightarrow> int \<Rightarrow> int \<Rightarrow> int" where
  "adjustLog2 a b d =
     (if (if 0 \<le> d then b * 2 ^ nat d \<le> a else b \<le> a * 2 ^ nat (- d)) then d else d - 1)"

definition floorLog2 :: "int \<Rightarrow> int \<Rightarrow> int" where
  "floorLog2 a b = adjustLog2 a b (bitlen a - bitlen b)"

definition tieBreak :: "int \<Rightarrow> int \<Rightarrow> int \<Rightarrow> int" where
  "tieBreak q r2 dn = (if r2 < dn then q else if dn < r2 then q + 1 else if even q then q else q + 1)"

definition roundHalfEven :: "int \<Rightarrow> int \<Rightarrow> int" where
  "roundHalfEven n dn = tieBreak (n div dn) (2 * (n mod dn)) dn"

definition pack :: "int \<Rightarrow> int \<Rightarrow> number" where
  "pack m s = (if 971 < s \<or> (s = 971 \<and> 2 ^ 53 \<le> m) then PosInf else normalize m s)"

definition roundAt :: "int \<Rightarrow> int \<Rightarrow> int \<Rightarrow> number" where
  "roundAt a b s =
     (if 0 \<le> s then pack (roundHalfEven a (b * 2 ^ nat s)) s
      else pack (roundHalfEven (a * 2 ^ nat (- s)) b) s)"

definition roundRatio :: "int \<Rightarrow> int \<Rightarrow> number" where
  "roundRatio a b =
     (if a = 0 then Fin 0 0 else roundAt a b (max (floorLog2 a b) (- 1022) - 52))"

definition neg :: "number \<Rightarrow> number" where
  "neg x = (case x of Fin m e \<Rightarrow> Fin (- m) e | PosInf \<Rightarrow> NegInf | NegInf \<Rightarrow> PosInf | NaN \<Rightarrow> NaN)"

definition roundSigned :: "int \<Rightarrow> int \<Rightarrow> number" where
  "roundSigned a b = (if a < 0 then neg (roundRatio (- a) b) else roundRatio a b)"

definition roundDyadic :: "int \<Rightarrow> int \<Rightarrow> number" where
  "roundDyadic m e = (if 0 \<le> e then roundSigned (m * 2 ^ nat e) 1 else roundSigned m (2 ^ nat (- e)))"

text \<open>
  \<open>numLit a b\<close> is the numeric literal whose decimal value is \<open>a / b\<close>: \<open>numLit 239 100\<close>
  is the literal \<open>2.39\<close>.
\<close>

definition numLit :: "int \<Rightarrow> int \<Rightarrow> number" where
  "numLit a b = roundRatio a b"

definition signOf :: "number \<Rightarrow> int" where
  "signOf x = (case x of Fin m e \<Rightarrow> sgn m | PosInf \<Rightarrow> 1 | NegInf \<Rightarrow> - 1 | NaN \<Rightarrow> 0)"

text \<open>The operators \<open>/\<close>, \<open>*\<close>, \<open>-\<close>, \<open><=\<close> and \<open>>\<close>, and \<open>isFinite\<close>, \<open>Math.abs\<close>, \<open>Math.round\<close>.\<close>

definition jsDiv :: "number \<Rightarrow> number \<Rightarrow> number" where
  "jsDiv x y =
     (case (x, y) of
        (NaN, _) \<Rightarrow> NaN
      | (_, NaN) \<Rightarrow> NaN
      | (Fin m1 e1, Fin m2 e2) \<Rightarrow>
          if m2 = 0 then (if m1 = 0 then NaN else if 0 < m1 then PosInf else NegInf)
          else if e2 \<le> e1 then roundSigned (sgn m2 * m1 * 2 ^ nat (e1 - e2)) \<bar>m2\<bar>
          else roundSigned (sgn m2 * m1) (\<bar>m2\<bar> * 2 ^ nat (e2 - e1))
      | (Fin m1 e1, _) \<Rightarrow> Fin 0 0
      | (_, Fin m2 e2) \<Rightarrow> (if signOf x * (if m2 < 0 then - 1 else 1) < 0 then NegInf else PosInf)
      | (_, _) \<Rightarrow> NaN)"

definition jsMul :: "number \<Rightarrow> number \<Rightarrow> number" where
  "jsMul x y =
     (case (x, y) of
        (NaN, _) \<Rightarrow> NaN
      | (_, NaN) \<Rightarrow> NaN
      | (Fin m1 e1, Fin m2 e2) \<Rightarrow> roundDyadic (m1 * m2) (e1 + e2)
      | (_, _) \<Rightarrow>
          (if signOf x * signOf y = 0 then NaN
           else if signOf x * signOf y < 0 then NegInf else PosInf))"

definition jsSub :: "number \<Rightarrow> number \<Rightarrow> number" where
  "jsSub x y =
     (case (x, y) of
        (NaN, _) \<Rightarrow> NaN
      | (_, NaN) \<Rightarrow> NaN
      | (Fin m1 e1, Fin m2 e2) \<Rightarrow>
          (let e = min e1 e2 in roundDyadic (m1 * 2 ^ nat (e1 - e) - m2 * 2 ^ nat (e2 - e)) e)
      | (Fin m1 e1, _) \<Rightarrow> neg y
      | (_, Fin m2 e2) \<Rightarrow> x
      | (_, _) \<Rightarrow> (if x = y then NaN else x))"

definition jsLe :: "number \<Rightarrow> number \<Rightarrow> bool" where
  "jsLe x y =
     (case (x, y) of
        (NaN, _) \<Rightarrow> False
      | (_, NaN) \<Rightarrow> False
      | (Fin m1 e1, Fin m2 e2) \<Rightarrow>
          (let e = min e1 e2 in m1 * 2 ^ nat (e1 - e) \<le> m2 * 2 ^ nat (e2 - e))
      | (NegInf, _) \<Rightarrow> True
      | (_, PosInf) \<Rightarrow> True
      | (_, _) \<Rightarrow> False)"

definition jsGt :: "number \<Rightarrow> number \<Rightarrow> bool" where
  "jsGt x y \<longleftrightarrow> x \<noteq> NaN \<and> y \<noteq> NaN \<and> \<not> jsLe x y"

definition isFinite :: "number \<Rightarrow> bool" where
  "isFinite x = (case x of Fin m e \<Rightarrow> True | _ \<Rightarrow> False)"

definition mathAbs :: "number \<Rightarrow> number" where
  "mathAbs x = (case x of Fin m e \<Rightarrow> Fin \<bar>m\<bar> e | NegInf \<Rightarrow> PosInf | _ \<Rightarrow> x)"

definition mathRound :: "number \<Rightarrow> number" where
  "mathRound x =
     (case x of
        Fin m e \<Rightarrow>
          if 0 \<le> e then x
          else normalize ((2 * m + 2 ^ nat (- e)) div 2 ^ nat (1 - e)) 0
      | _ \<Rightarrow> x)"

subsection \<open>Numbers to strings\<close>

function natToDigits :: "nat \<Rightarrow> jsstring" where
  "natToDigits n = (if n < 10 then [48 + n] else natToDigits (n div 10) @ [48 + n mod 10])"
  by pat_completeness auto
termination
  by (relation "measure id") auto

declare natToDigits.simps [simp del]

text \<open>
  \<open>Number::toString\<close> for a finite double \<open>x \<ge> 10^21\<close> (an integer): the shortest
  decimal, of \<open>k\<close> significant digits, that rounds to \<open>x\<close>, the nearest to \<open>x\<close> if there
  are two, printed in exponent notation. \<open>shortestDecimal\<close> tries \<open>k = 1, 2, ...\<close>; with
  as many digits as \<open>x\<close> has, \<open>x\<close> itself is found.
\<close>

definition stripTrailingZeros :: "jsstring \<Rightarrow> jsstring" where
  "stripTrailingZeros ds = rev (dropWhile (\<lambda>c. c = 48) (rev ds))"

definition roundTrips :: "int \<Rightarrow> int \<Rightarrow> bool" where
  "roundTrips v x = (roundRatio v 1 = roundRatio x 1)"

definition chooseCandidate :: "int \<Rightarrow> int \<Rightarrow> int \<Rightarrow> bool \<Rightarrow> bool \<Rightarrow> int option" where
  "chooseCandidate x lo p okLo okHi =
     (if okLo \<and> okHi then
        (if x - lo < lo + p - x then Some lo
         else if lo + p - x < x - lo then Some (lo + p)
         else if even (lo div p) then Some lo else Some (lo + p))
      else if okLo then Some lo
      else if okHi then Some (lo + p)
      else None)"

definition candidateAt :: "int \<Rightarrow> int \<Rightarrow> int \<Rightarrow> int option" where
  "candidateAt x lo p = chooseCandidate x lo p (roundTrips lo x) (roundTrips (lo + p) x)"

definition candidate :: "int \<Rightarrow> int \<Rightarrow> int option" where
  "candidate x p = candidateAt x ((x div p) * p) p"

primrec shortestDecimal :: "nat \<Rightarrow> nat \<Rightarrow> nat \<Rightarrow> int \<Rightarrow> int" where
  "shortestDecimal 0 k n x = x"
| "shortestDecimal (Suc fuel) k n x =
     (case candidate x (10 ^ (n - k)) of
        Some v \<Rightarrow> v
      | None \<Rightarrow> shortestDecimal fuel (Suc k) n x)"

definition exponentJoin :: "jsstring \<Rightarrow> jsstring \<Rightarrow> jsstring" where
  "exponentJoin sig ex =
     (if length sig \<le> 1 then sig @ str ''e+'' @ ex
      else hd sig # str ''.'' @ tl sig @ str ''e+'' @ ex)"

definition exponentDigits :: "jsstring \<Rightarrow> jsstring" where
  "exponentDigits ds = exponentJoin (stripTrailingZeros ds) (natToDigits (length ds - 1))"

definition exponentForm :: "int \<Rightarrow> jsstring" where
  "exponentForm v = exponentDigits (natToDigits (nat v))"

definition shortestFor :: "nat \<Rightarrow> int \<Rightarrow> int" where
  "shortestFor n x = shortestDecimal n 1 n x"

definition numberToStringLarge :: "int \<Rightarrow> jsstring" where
  "numberToStringLarge x = exponentForm (shortestFor (length (natToDigits (nat x))) x)"

text \<open>
  \<open>x.toFixed(2)\<close>: the name of a value that is not finite; \<open>Number::toString\<close> when
  \<open>10^21 \<le> |x|\<close>; otherwise the digits of the integer \<open>n\<close> nearest to \<open>100 * |x|\<close>, the
  larger one of two, padded to three digits, with a point before the last two.
\<close>

definition padZeros :: "jsstring \<Rightarrow> jsstring" where
  "padZeros m = (if length m \<le> 2 then replicate (3 - length m) 48 @ m else m)"

definition insertPoint :: "jsstring \<Rightarrow> jsstring" where
  "insertPoint m = take (length m - 2) m @ str ''.'' @ drop (length m - 2) m"

definition fixed2Digits :: "nat \<Rightarrow> jsstring" where
  "fixed2Digits n = insertPoint (padZeros (natToDigits n))"

definition toFixed2 :: "number \<Rightarrow> jsstring" where
  "toFixed2 x =
     (case x of
        NaN \<Rightarrow> str ''NaN''
      | PosInf \<Rightarrow> str ''Infinity''
      | NegInf \<Rightarrow> str ''-Infinity''
      | Fin m e \<Rightarrow>
          (if m < 0 then str ''-'' else []) @
          (if 0 \<le> e \<and> 10 ^ 21 \<le> \<bar>m\<bar> * 2 ^ nat e
           then numberToStringLarge (\<bar>m\<bar> * 2 ^ nat e)
           else if 0 \<le> e then fixed2Digits (nat (\<bar>m\<bar> * 2 ^ nat e * 100))
           else fixed2Digits (nat ((200 * \<bar>m\<bar> + 2 ^ nat (- e)) div 2 ^ nat (1 - e)))))"

subsection \<open>Strings to numbers\<close>

text \<open>
  \<open>parseFloat\<close> on the texts the program gives it, which are captures of the pattern
  \<open>\d+(?:\.\d+)?\<close>: decimal digits, optionally followed by a point and more digits.
  The value is the double nearest to the decimal number read.
\<close>

definition digitsValue :: "jsstring \<Rightarrow> int" where
  "digitsValue ds = foldl (\<lambda>a c. 10 * a + (int c - 48)) 0 ds"

definition parseDigits :: "jsstring \<Rightarrow> jsstring \<Rightarrow> number" where
  "parseDigits ip r =
     (if ip = [] then NaN
      else (case r of
              c # r' \<Rightarrow>
                if c = 46 \<and> takeWhile isDigit r' \<noteq> [] then
                  roundRatio (digitsValue (ip @ takeWhile isDigit r'))
                    (10 ^ length (takeWhile isDigit r'))
                else roundRatio (digitsValue ip) 1
            | [] \<Rightarrow> roundRatio (digitsValue ip) 1))"

definition parseFloat :: "jsstring \<Rightarrow> number" where
  "parseFloat s = parseDigits (takeWhile isDigit s) (dropWhile isDigit s)"

section \<open>The program\<close>

text \<open>
  The objects of the program: the entries pushed by \<open>parseRatiosFromBlock\<close>
  (\<open>{ ratio, raw, note }\<close>, with \<open>note\<close> a string or \<open>null\<close>), the result of
  \<open>mapRatioToType\<close> (\<open>{ short, long }\<close>), the object returned by
  \<open>fetchImdbAspectRatio\<close>, the \<open>Error\<close> it throws, and what it reads of the response of
  \<open>fetch\<close>. \<open>None\<close> stands for \<open>null\<close>.
\<close>

record entry =
  ratio :: jsstring
  raw :: jsstring
  note' :: "jsstring option"

record typeMap =
  short :: "jsstring option"
  long :: "jsstring option"

record aspectRatioResult =
  aspectRatio :: "jsstring option"
  displayText :: jsstring
  allAspectRatios :: "jsstring list"
  mappedTypeShort :: "jsstring option"
  mappedTypeLong :: "jsstring option"
  source :: jsstring
  sourceUrl :: jsstring

datatype error = Error jsstring

record response =
  ok :: bool
  status :: nat
  body :: jsstring

subsection \<open>normalizeAspectRatioText\<close>

text \<open>
  The patterns are \<open>/\s*:\s*/g\<close>, \<open>/\s+/g\<close> and
  \<open>/\s*(Camera|Runtime|Sound mix|Color|Negative Format|Cinematographic Process|Printed Film Format).*$/i\<close>.
  The argument is \<open>None\<close> for \<open>null\<close> or \<open>undefined\<close>; \<open>!text\<close> holds for these and for the
  empty string.
\<close>

definition re_colon :: regex where
  "re_colon = seqs [Star (Atom Space), Atom (Lit 58), Star (Atom Space)]"

definition re_spaces :: regex where
  "re_spaces = Plus (Atom Space)"

definition re_trailingLabel :: regex where
  "re_trailingLabel =
     seqs [Star (Atom Space),
       Group (alts [lits ''Camera'', lits ''Runtime'', lits ''Sound mix'', lits ''Color'',
         lits ''Negative Format'', lits ''Cinematographic Process'', lits ''Printed Film Format'']),
       Star (Atom Dot), Eol]"

definition normalizeAspectRatioText :: "jsstring option \<Rightarrow> jsstring option" where
  "normalizeAspectRatioText text =
     (case text of
        None \<Rightarrow> None
      | Some t \<Rightarrow>
          if t = [] then None
          else Some (trim (replaceFirst re_trailingLabel True []
                 (replaceAll re_spaces False (str '' '')
                   (replaceAll re_colon False (str '':'') (trim t))))))"

subsection \<open>findAspectRatioBlocks\<close>

text \<open>
  \<open>re_labelled tag\<close> is \<open>/<tag[\s\S]*?>[\s\S]*?Aspect\s*ratio[\s\S]*?<\/tag>/gi\<close>, for the
  tags \<open>tr\<close>, \<open>li\<close> and \<open>section\<close>; \<open>re_testid\<close> is
  \<open>/<div[^>]*?data-testid=["']title-techspecs-aspectratio["'][\s\S]*?<\/div>/gi\<close>.
  \<open>patternBlocks\<close> is the loop over \<open>patterns\<close>, which pushes all the matches of each
  pattern; \<open>fallbackBlocks\<close> is the branch taken when \<open>blocks.length === 0\<close>, where
  \<open>Math.max(0, idx - 200)\<close> is written out.
\<close>

definition re_script :: regex where
  "re_script = seqs [lits ''<script'', StarLazy (Atom AnyChar), lits ''</script>'']"

definition re_style :: regex where
  "re_style = seqs [lits ''<style'', StarLazy (Atom AnyChar), lits ''</style>'']"

definition re_labelled :: "string \<Rightarrow> regex" where
  "re_labelled tag =
     seqs [lits (''<'' @ tag), StarLazy (Atom AnyChar), Atom (Lit 62), StarLazy (Atom AnyChar),
       lits ''Aspect'', Star (Atom Space), lits ''ratio'', StarLazy (Atom AnyChar),
       lits (''</'' @ tag @ ''>'')]"

definition re_testid :: regex where
  "re_testid =
     seqs [lits ''<div'', StarLazy (Atom (NoneOf [62])), lits ''data-testid='',
       Atom (OneOf [34, 39]), lits ''title-techspecs-aspectratio'', Atom (OneOf [34, 39]),
       StarLazy (Atom AnyChar), lits ''</div>'']"

definition patterns :: "regex list" where
  "patterns = [re_labelled ''tr'', re_labelled ''li'', re_testid, re_labelled ''section'']"

definition stripScripts :: "jsstring \<Rightarrow> jsstring" where
  "stripScripts html = replaceAll re_style True [] (replaceAll re_script True [] html)"

definition fallbackBlocks :: "jsstring \<Rightarrow> jsstring list" where
  "fallbackBlocks cleaned =
     (case indexOf (toLowerCase cleaned) (str ''aspect ratio'') of
        None \<Rightarrow> []
      | Some idx \<Rightarrow> [slice cleaned (if idx < 200 then 0 else idx - 200) (idx + 800)])"

definition patternBlocks :: "jsstring \<Rightarrow> jsstring list" where
  "patternBlocks cleaned = concat (map (\<lambda>re. matchAll re True cleaned) patterns)"

definition findAspectRatioBlocks :: "jsstring \<Rightarrow> jsstring list" where
  "findAspectRatioBlocks html =
     (if html = [] then []
      else if patternBlocks (stripScripts html) = [] then fallbackBlocks (stripScripts html)
      else patternBlocks (stripScripts html))"

subsection \<open>parseRatiosFromBlock\<close>

text \<open>
  \<open>blockText\<close> is the chain of \<open>replace\<close> calls that computes \<open>text\<close>, in its order:
  \<open>re_open tag\<close> is \<open>/<tag\b[^>]*>/gi\<close>, \<open>re_close tag\<close> is \<open>/<\/tag>/gi\<close>, \<open>re_br\<close> is
  \<open>/<br\s*\/?>/gi\<close> and \<open>re_tag\<close> is \<open>/<[^>]*>/g\<close>. \<open>afterLabel\<close>, \<open>clipped\<close> and
  \<open>cleaned\<close> are the variables of these names, as functions of \<open>text\<close>, with the patterns
  \<open>/^[\s\S]*?aspect\s*ratio\s*/i\<close>, \<open>/\b(Camera|...|Contribute to this page)\b[\s\S]*$/i\<close>
  and \<open>/\b(class|role|data-testid)\s*=[\s\S]*$/i\<close>.
\<close>

definition re_open :: "string \<Rightarrow> regex" where
  "re_open tag = seqs [lits (''<'' @ tag), WordB, Star (Atom (NoneOf [62])), Atom (Lit 62)]"

definition re_close :: "string \<Rightarrow> regex" where
  "re_close tag = lits (''</'' @ tag @ ''>'')"

definition re_br :: regex where
  "re_br = seqs [lits ''<br'', Star (Atom Space), Opt (Atom (Lit 47)), Atom (Lit 62)]"

definition re_tag :: regex where
  "re_tag = seqs [Atom (Lit 60), Star (Atom (NoneOf [62])), Atom (Lit 62)]"

definition tagReplacements :: "(regex \<times> bool \<times> jsstring) list" where
  "tagReplacements =
     [(re_script, True, []), (re_style, True, []),
      (re_open ''a'', True, str '' ''), (re_close ''a'', True, str '' ''),
      (re_open ''li'', True, str '' ''), (re_close ''li'', True, str '' ''),
      (re_open ''ul'', True, str '' ''), (re_close ''ul'', True, str '' ''),
      (re_open ''div'', True, str '' ''), (re_close ''div'', True, str '' ''),
      (re_open ''span'', True, str '' ''), (re_close ''span'', True, str '' ''),
      (re_br, True, str '' ''), (re_tag, False, str '' ''), (re_spaces, False, str '' '')]"

definition blockText :: "jsstring \<Rightarrow> jsstring" where
  "blockText blockHtml =
     trim (foldl (\<lambda>t (re, ci, rep). replaceAll re ci rep t) blockHtml tagReplacements)"

definition re_label :: regex where
  "re_label =
     seqs [Bol, StarLazy (Atom AnyChar), lits ''aspect'', Star (Atom Space), lits ''ratio'',
       Star (Atom Space)]"

definition re_nextField :: regex where
  "re_nextField =
     seqs [WordB,
       Group (alts [lits ''Camera'', lits ''Runtime'', lits ''Sound mix'', lits ''Color'',
         lits ''Negative'', lits ''Cinematographic'', lits ''Printed'', lits ''Laboratory'',
         lits ''Film length'', lits ''Contribute to this page'']),
       WordB, Star (Atom AnyChar), Eol]"

definition re_attribute :: regex where
  "re_attribute =
     seqs [WordB, Group (alts [lits ''class'', lits ''role'', lits ''data-testid'']),
       Star (Atom Space), Atom (Lit 61), Star (Atom AnyChar), Eol]"

definition afterLabel :: "jsstring \<Rightarrow> jsstring" where
  "afterLabel text = replaceFirst re_label True [] text"

definition clipped :: "jsstring \<Rightarrow> jsstring" where
  "clipped text = trim (replaceFirst re_nextField True [] (afterLabel text))"

definition cleaned :: "jsstring \<Rightarrow> jsstring" where
  "cleaned text = trim (replaceFirst re_attribute True [] (clipped text))"

text \<open>
  The loop over the characters of \<open>cleaned\<close>: \<open>splitParts cs current parenDepth\<close> is the
  list of the parts pushed from the remaining characters \<open>cs\<close> on, the push after the
  loop included. \<open>parenDepth\<close> is an integer and can become negative. The separators
  of \<open>/[...|;]/\<close> are U+2022, U+00B7, the bar and the semicolon.
\<close>

definition isSeparator :: "nat \<Rightarrow> bool" where
  "isSeparator c \<longleftrightarrow> c = 8226 \<or> c = 183 \<or> c = 124 \<or> c = 59"

definition pushPart :: "jsstring \<Rightarrow> jsstring list" where
  "pushPart current = (if trim current = [] then [] else [trim current])"

definition depthAfter :: "int \<Rightarrow> nat \<Rightarrow> int" where
  "depthAfter parenDepth c =
     (if c = 40 then parenDepth + 1 else if c = 41 then parenDepth - 1 else parenDepth)"

fun splitParts :: "jsstring \<Rightarrow> jsstring \<Rightarrow> int \<Rightarrow> jsstring list" where
  "splitParts [] current parenDepth = pushPart current"
| "splitParts (c # cs) current parenDepth =
     (if depthAfter parenDepth c = 0 \<and> isSeparator c
      then pushPart current @ splitParts cs [] (depthAfter parenDepth c)
      else splitParts cs (current @ [c]) (depthAfter parenDepth c))"

text \<open>
  The loop over the parts. \<open>re_ratio\<close> is \<open>/(\d+(?:\.\d+)?)\s*:\s*(\d+(?:\.\d+)?)/\<close> and
  \<open>re_note\<close> is \<open>/^\s*\(([^)]+)\)/\<close>; both of their groups take part in every match, so
  the match array is the matched text followed by the captures. \<open>canonicalRatio\<close> is the
  template literal that computes \<open>normalized\<close>. \<open>ratioEntry p m\<close> is what the branch
  \<open>if (m)\<close> pushes for the part \<open>p\<close> and the match \<open>m\<close>, \<open>aliasEntry\<close> is what the tests of
  \<open>lowered\<close> push (\<open>/academy/\<close>, \<open>/4\s*:?\s*3|\bfull\s*screen\b/\<close>,
  \<open>/16\s*:?\s*9|hdtv|1\.78/\<close>), and \<open>partEntries p\<close> is one pass of the loop body.
\<close>

definition decimal :: regex where
  "decimal = Seq (Plus (Atom Digit)) (Opt (Seq (Atom (Lit 46)) (Plus (Atom Digit))))"

definition re_ratio :: regex where
  "re_ratio =
     seqs [Group decimal, Star (Atom Space), Atom (Lit 58), Star (Atom Space), Group decimal]"

definition re_note :: regex where
  "re_note =
     seqs [Bol, Star (Atom Space), Atom (Lit 40), Group (Plus (Atom (NoneOf [41]))),
       Atom (Lit 41)]"

definition re_academy :: regex where
  "re_academy = lits ''academy''"

definition re_fullScreen :: regex where
  "re_fullScreen =
     Alt (seqs [lits ''4'', Star (Atom Space), Opt (Atom (Lit 58)), Star (Atom Space), lits ''3''])
         (seqs [WordB, lits ''full'', Star (Atom Space), lits ''screen'', WordB])"

definition re_hdtv :: regex where
  "re_hdtv =
     alts [seqs [lits ''16'', Star (Atom Space), Opt (Atom (Lit 58)), Star (Atom Space), lits ''9''],
       lits ''hdtv'', lits ''1.78'']"

definition canonicalRatio :: "number \<Rightarrow> number \<Rightarrow> jsstring" where
  "canonicalRatio num den =
     toFixed2 (jsDiv (mathRound (jsMul (jsDiv num den) (numLit 100 1))) (numLit 100 1))
     @ str '':1''"

definition noteAfter :: "jsstring \<Rightarrow> jsstring \<Rightarrow> jsstring option" where
  "noteAfter p m0 =
     (case jsMatch re_note False
             (trim (drop ((case indexOf p m0 of None \<Rightarrow> 0 | Some i \<Rightarrow> i) + length m0) p)) of
        None \<Rightarrow> None
      | Some noteMatch \<Rightarrow> Some (trim (noteMatch ! 1)))"

definition ratioEntry :: "jsstring \<Rightarrow> jsstring list \<Rightarrow> entry list" where
  "ratioEntry p m =
     (if parseFloat (m ! 2) \<noteq> Fin 0 0 \<and> jsGt (parseFloat (m ! 1)) (Fin 0 0)
      then [\<lparr>ratio = canonicalRatio (parseFloat (m ! 1)) (parseFloat (m ! 2)),
             raw = replaceAll (Star (Atom Space)) False [] (m ! 0),
             note' = noteAfter p (m ! 0)\<rparr>]
      else [])"

definition aliasEntry :: "jsstring \<Rightarrow> entry list" where
  "aliasEntry lowered =
     (if test re_academy False lowered
      then [\<lparr>ratio = str ''1.37:1'', raw = str ''1.37:1'', note' = None\<rparr>]
      else if test re_fullScreen False lowered
      then [\<lparr>ratio = str ''1.33:1'', raw = str ''1.33:1'', note' = None\<rparr>]
      else if test re_hdtv False lowered
      then [\<lparr>ratio = str ''1.78:1'', raw = str ''1.78:1'', note' = None\<rparr>]
      else [])"

definition partEntries :: "jsstring \<Rightarrow> entry list" where
  "partEntries p =
     (case jsMatch re_ratio False p of
        Some m \<Rightarrow> ratioEntry p m
      | None \<Rightarrow> aliasEntry (toLowerCase p))"

fun parseParts :: "jsstring list \<Rightarrow> entry list" where
  "parseParts [] = []"
| "parseParts (p # ps) = partEntries p @ parseParts ps"

definition parseRatiosFromBlock :: "jsstring \<Rightarrow> entry list" where
  "parseRatiosFromBlock blockHtml =
     (if blockHtml = [] then []
      else parseParts (splitParts (cleaned (blockText blockHtml)) [] 0))"

subsection \<open>uniqueRatios\<close>

text \<open>
  The loop of \<open>uniqueRatios\<close>: \<open>seen\<close> is the \<open>Set\<close> of the ratio strings met so far, the
  result is the array \<open>uniq\<close> in push order. An entry whose \<open>ratio\<close> is falsy (for a
  string: empty) is skipped by \<open>if (!e || !e.ratio) continue\<close>; the \<open>!e\<close> half guards
  \<open>null\<close> elements, which the type \<open>entry\<close> does not have.
\<close>

fun uniqueRatios_loop :: "jsstring set \<Rightarrow> entry list \<Rightarrow> entry list" where
  "uniqueRatios_loop seen [] = []"
| "uniqueRatios_loop seen (e # es) =
     (if ratio e = [] then uniqueRatios_loop seen es
      else if ratio e \<in> seen then uniqueRatios_loop seen es
      else e # uniqueRatios_loop (insert (ratio e) seen) es)"

definition uniqueRatios :: "entry list \<Rightarrow> entry list" where
  "uniqueRatios entries = uniqueRatios_loop {} entries"

subsection \<open>ratioToNumber, mapRatioToType, scoreForPrimary\<close>

text \<open>
  \<open>ratioQuotient m\<close> is what \<open>ratioToNumber\<close> returns for the match array \<open>m\<close>.
  \<open>withinTol val t\<close> is the local function \<open>within(t)\<close> with its default \<open>d = 0.02\<close>.
  \<open>typeOfValue\<close> and \<open>scoreOfValue\<close> are the chains of \<open>if\<close> statements of
  \<open>mapRatioToType\<close> and \<open>scoreForPrimary\<close>, for a value \<open>val\<close> that is not \<open>null\<close>.
\<close>

definition ratioQuotient :: "jsstring list \<Rightarrow> number option" where
  "ratioQuotient m =
     (if \<not> isFinite (parseFloat (m ! 1)) \<or> \<not> isFinite (parseFloat (m ! 2))
         \<or> parseFloat (m ! 2) = Fin 0 0
      then None
      else Some (jsDiv (parseFloat (m ! 1)) (parseFloat (m ! 2))))"

definition ratioToNumber :: "jsstring \<Rightarrow> number option" where
  "ratioToNumber r =
     (case jsMatch re_ratio False r of
        None \<Rightarrow> None
      | Some m \<Rightarrow> ratioQuotient m)"

definition withinTol :: "number \<Rightarrow> number \<Rightarrow> bool" where
  "withinTol val t = jsLe (mathAbs (jsSub val t)) (numLit 2 100)"

definition named :: "string \<Rightarrow> string \<Rightarrow> typeMap" where
  "named s l = \<lparr>short = Some (str s), long = Some (str l)\<rparr>"

definition typeOfValue :: "number \<Rightarrow> typeMap" where
  "typeOfValue val =
     (if withinTol val (numLit 4 1) then named ''Polyvision'' ''Polyvision''
      else if withinTol val (numLit 276 100)
        then named ''Ultra Panavision 70'' ''Ultra Panavision 70, MGM Camera 65''
      else if withinTol val (numLit 259 100) then named ''Cinerama'' ''Cinerama''
      else if withinTol val (numLit 24 10) \<or> withinTol val (numLit 239 100) \<or> withinTol val (numLit 235 100)
        then named ''Scope'' ''Anamorphic widescreen, Scope''
      else if withinTol val (numLit 22 10) then named ''Todd-AO'' ''Todd-AO, Super Panavision 70''
      else if withinTol val (numLit 211 100) then named ''IMAX 2.11:1'' ''IMAX 2.11:1''
      else if withinTol val (numLit 2 1) then named ''Univisium'' ''Univisium, 18:9''
      else if withinTol val (numLit 19 10) then named ''Digital IMAX'' ''Digital IMAX''
      else if withinTol val (numLit 185 100)
        then named ''Widescreen'' ''Widescreen (flat), Standard American Widescreen''
      else if withinTol val (numLit 178 100) \<or> withinTol val (jsDiv (numLit 16 1) (numLit 9 1))
        then named ''16:9'' ''16:9, HDTV, Widescreen TV''
      else if withinTol val (numLit 166 100)
        then named ''European Widescreen'' ''5:3, European Widescreen''
      else if withinTol val (numLit 143 100) \<or> withinTol val (numLit 144 100)
        then named ''IMAX 70mm'' ''IMAX (70mm), True IMAX''
      else if withinTol val (numLit 137 100)
        then named ''Academy Ratio'' ''Academy Ratio, Academy Standard''
      else if withinTol val (numLit 133 100) \<or> withinTol val (jsDiv (numLit 4 1) (numLit 3 1))
        then named ''4:3'' ''4:3, Full screen, Standard ratio''
      else if withinTol val (numLit 119 100) then named ''Silent film'' ''Silent film''
      else \<lparr>short = None, long = None\<rparr>)"

definition mapRatioToType :: "jsstring \<Rightarrow> typeMap" where
  "mapRatioToType r =
     (case ratioToNumber r of
        None \<Rightarrow> \<lparr>short = None, long = None\<rparr>
      | Some val \<Rightarrow> typeOfValue val)"

definition scoreOfValue :: "number \<Rightarrow> nat" where
  "scoreOfValue val =
     (if withinTol val (numLit 24 10) \<or> withinTol val (numLit 239 100) \<or> withinTol val (numLit 235 100)
        then 100
      else if withinTol val (numLit 185 100) then 95
      else if withinTol val (numLit 22 10) then 90
      else if withinTol val (numLit 19 10) then 85
      else if withinTol val (numLit 211 100) then 83
      else if withinTol val (numLit 178 100) then 80
      else if withinTol val (numLit 166 100) then 70
      else if withinTol val (numLit 2 1) then 60
      else if withinTol val (numLit 143 100) \<or> withinTol val (numLit 144 100) then 50
      else if withinTol val (numLit 276 100) then 45
      else if withinTol val (numLit 259 100) then 43
      else if withinTol val (numLit 137 100) then 40
      else if withinTol val (numLit 133 100) then 35
      else if withinTol val (numLit 119 100) then 30
      else if withinTol val (numLit 4 1) then 25
      else 10)"

definition scoreForPrimary :: "jsstring \<Rightarrow> nat" where
  "scoreForPrimary r =
     (case ratioToNumber r of
        None \<Rightarrow> 0
      | Some val \<Rightarrow> scoreOfValue val)"

subsection \<open>choosePrimaryRatio\<close>

text \<open>
  The argument is \<open>None\<close> when the array is missing (\<open>null\<close> or \<open>undefined\<close>). The loop
  carries \<open>best\<close> and \<open>bestScore\<close> over the elements from index 1 on.
\<close>

fun choosePrimaryRatio_loop :: "jsstring \<Rightarrow> nat \<Rightarrow> jsstring list \<Rightarrow> jsstring" where
  "choosePrimaryRatio_loop best bestScore [] = best"
| "choosePrimaryRatio_loop best bestScore (r # rs) =
     (if bestScore < scoreForPrimary r
      then choosePrimaryRatio_loop r (scoreForPrimary r) rs
      else choosePrimaryRatio_loop best bestScore rs)"

definition choosePrimaryRatio :: "jsstring list option \<Rightarrow> jsstring option" where
  "choosePrimaryRatio ratios =
     (case ratios of
        None \<Rightarrow> None
      | Some [] \<Rightarrow> None
      | Some (r # rs) \<Rightarrow> Some (choosePrimaryRatio_loop r (scoreForPrimary r) rs))"

subsection \<open>parseAllAspectRatiosFromImdb, fetchImdbAspectRatio\<close>

text \<open>
  \<open>primaryOf list\<close> is \<open>choosePrimaryRatio(list) || list[0]\<close>: a string is truthy when
  it is not empty, and \<open>list[0]\<close> of an empty array is \<open>undefined\<close>. \<open>jsString\<close> is the
  conversion \<open>String(ratio)\<close> that \<open>ratioToNumber\<close> applies, needed where the argument
  can be \<open>null\<close>. \<open>fetchImdbAspectRatio imdbId res\<close> is the function from the response
  \<open>res\<close> of \<open>fetch\<close> on: the delay before the request and the counters of \<open>STATUS\<close> are
  not modelled. \<open>Inl\<close> is a thrown \<open>Error\<close> with its message.
\<close>

definition parseAllAspectRatiosFromImdb :: "jsstring \<Rightarrow> jsstring list" where
  "parseAllAspectRatiosFromImdb html =
     map ratio (uniqueRatios (concat (map parseRatiosFromBlock (findAspectRatioBlocks html))))"

definition truthy :: "jsstring option \<Rightarrow> bool" where
  "truthy v = (case v of None \<Rightarrow> False | Some s \<Rightarrow> s \<noteq> [])"

definition first :: "jsstring list \<Rightarrow> jsstring option" where
  "first list = (case list of [] \<Rightarrow> None | x # _ \<Rightarrow> Some x)"

definition primaryOf :: "jsstring list \<Rightarrow> jsstring option" where
  "primaryOf list =
     (if truthy (choosePrimaryRatio (Some list)) then choosePrimaryRatio (Some list)
      else first list)"

definition displayPart :: "jsstring \<Rightarrow> jsstring" where
  "displayPart r =
     (case long (mapRatioToType r) of
        Some l \<Rightarrow> if l \<noteq> [] then r @ str '' ('' @ l @ str '')'' else r
      | None \<Rightarrow> r)"

fun join :: "jsstring \<Rightarrow> jsstring list \<Rightarrow> jsstring" where
  "join sep [] = []"
| "join sep [x] = x"
| "join sep (x # y # ys) = x @ sep @ join sep (y # ys)"

definition jsString :: "jsstring option \<Rightarrow> jsstring" where
  "jsString v = (case v of None \<Rightarrow> str ''null'' | Some s \<Rightarrow> s)"

definition technicalUrl :: "jsstring \<Rightarrow> jsstring" where
  "technicalUrl imdbId = str ''https://www.imdb.com/title/'' @ imdbId @ str ''/technical/''"

definition buildResult :: "jsstring \<Rightarrow> jsstring list \<Rightarrow> aspectRatioResult" where
  "buildResult url list =
     \<lparr>aspectRatio = normalizeAspectRatioText (primaryOf list),
      displayText = join [32, 8226, 32] (map displayPart list),
      allAspectRatios = list,
      mappedTypeShort = short (mapRatioToType (jsString (normalizeAspectRatioText (primaryOf list)))),
      mappedTypeLong = long (mapRatioToType (jsString (normalizeAspectRatioText (primaryOf list)))),
      source = str ''imdb'',
      sourceUrl = url\<rparr>"

definition fetchImdbAspectRatio :: "jsstring \<Rightarrow> response \<Rightarrow> error + aspectRatioResult" where
  "fetchImdbAspectRatio imdbId res =
     (if \<not> ok res then Inl (Error (str ''IMDb fetch failed: '' @ natToDigits (status res)))
      else if parseAllAspectRatiosFromImdb (body res) = []
        then Inl (Error (str ''Aspect ratio not found on IMDb''))
      else Inr (buildResult (technicalUrl imdbId) (parseAllAspectRatiosFromImdb (body res))))"


section \<open>The tables of the specification\<close>




text \<open>
  \<open>valueOf x\<close> is the rational number that the finite double \<open>x\<close> is. \<open>close t d\<close> holds
  when the double \<open>t\<close> is finite and at most \<open>5 * 10^-16\<close> away from the rational \<open>d\<close>, as
  the double nearest to a decimal number between 1 and 4 is.
\<close>

definition valueOf :: "number \<Rightarrow> rat" where
  "valueOf x = (case x of Fin m e \<Rightarrow> of_int m * 2 powi e | _ \<Rightarrow> 0)"

definition close :: "number \<Rightarrow> rat \<Rightarrow> bool" where
  "close t d \<longleftrightarrow> isFinite t \<and> \<bar>valueOf t - d\<bar> \<le> 5 / 10 ^ 16"


text \<open>
  The preference table of the specification for the primary ratio: the score of the
  first entry with a target within the tolerance of the value, and 10 when there is
  none.
\<close>

definition scoreTable :: "(number list \<times> nat) list" where
  "scoreTable =
     [([numLit 24 10, numLit 239 100, numLit 235 100], 100),
      ([numLit 185 100], 95),
      ([numLit 22 10], 90),
      ([numLit 19 10], 85),
      ([numLit 211 100], 83),
      ([numLit 178 100], 80),
      ([numLit 166 100], 70),
      ([numLit 2 1], 60),
      ([numLit 143 100, numLit 144 100], 50),
      ([numLit 276 100], 45),
      ([numLit 259 100], 43),
      ([numLit 137 100], 40),
      ([numLit 133 100], 35),
      ([numLit 119 100], 30),
      ([numLit 4 1], 25)]"

definition scoreByTable :: "number \<Rightarrow> nat" where
  "scoreByTable val =
     (case find (\<lambda>(targets, s). list_ex (withinTol val) targets) scoreTable of
        None \<Rightarrow> 10
      | Some (targets, s) \<Rightarrow> s)"

text \<open>
  Two notions for the results of the parser. A string is \<open>normalized\<close> when
  \<open>normalizeAspectRatioText\<close> returns it unchanged. \<open>plainChar\<close> holds for the characters
  of a finite number printed by \<open>toFixed\<close> and of the suffix \<open>:1\<close>: the digits, the
  point, the signs, the \<open>e\<close> of the exponent notation and the colon.
\<close>

definition normalized :: "jsstring \<Rightarrow> bool" where
  "normalized s \<longleftrightarrow> normalizeAspectRatioText (Some s) = Some s"

definition plainChar :: "nat \<Rightarrow> bool" where
  "plainChar c \<longleftrightarrow> isDigit c \<or> c = 43 \<or> c = 45 \<or> c = 46 \<or> c = 58 \<or> c = 101"

section \<open>Evaluation\<close>

text \<open>
  The equations that evaluate the model on a concrete input: the arithmetic of
  numbers, the operations on strings, and the patterns of the program.
\<close>

lemmas num_eval = roundRatio_def roundAt_def pack_def roundHalfEven_def tieBreak_def floorLog2_def
  adjustLog2_def bitlen.simps normalize.simps Let_def roundDyadic_def roundSigned_def
  jsMul_def jsDiv_def jsSub_def jsLe_def jsGt_def mathRound_def mathAbs_def numLit_def neg_def
  toFixed2_def fixed2Digits_def insertPoint_def padZeros_def natToDigits.simps
  parseFloat_def parseDigits_def digitsValue_def isDigit_def isFinite_def

lemmas str_eval = str_def isSpace_def isWordChar_def isLineTerminator_def trim_def lowerUnit_def
  toLowerCase_def indexOf_def slice_def canonicalize_def rest_def progress_def wordBefore_def
  wordAfter_def Plus_def lits_def jsMatch_def test_def replaceFirst_def replaceAll_def matchAll_def

lemmas prog_eval = re_colon_def re_spaces_def re_trailingLabel_def re_script_def re_style_def
  re_open_def re_close_def re_br_def re_tag_def tagReplacements_def re_label_def re_nextField_def
  re_attribute_def afterLabel_def clipped_def cleaned_def isSeparator_def pushPart_def depthAfter_def
  decimal_def re_ratio_def re_note_def re_academy_def re_fullScreen_def re_hdtv_def

section \<open>The tolerance test in exact arithmetic\<close>




























section \<open>Properties of uniqueRatios\<close>

lemma uniqueRatios_loop_member:
  "e \<in> set (uniqueRatios_loop seen xs) \<Longrightarrow> ratio e \<noteq> [] \<and> ratio e \<notin> seen \<and> e \<in> set xs"
  by (induction xs arbitrary: seen) (auto split: if_splits)

lemma uniqueRatios_loop_distinct: "distinct (map ratio (uniqueRatios_loop seen xs))"
  by (induction xs arbitrary: seen) (auto dest: uniqueRatios_loop_member)

lemma uniqueRatios_loop_subseq: "subseq (uniqueRatios_loop seen xs) xs"
  by (induction xs arbitrary: seen) auto

lemma uniqueRatios_loop_find:
  "r \<noteq> [] \<Longrightarrow> r \<notin> seen \<Longrightarrow>
     find (\<lambda>e. ratio e = r) (uniqueRatios_loop seen xs) = find (\<lambda>e. ratio e = r) xs"
  by (induction xs arbitrary: seen) (auto split: if_splits)

lemma uniqueRatios_loop_fixed:
  "\<forall>e \<in> set xs. ratio e \<noteq> [] \<and> ratio e \<notin> seen \<Longrightarrow> distinct (map ratio xs) \<Longrightarrow>
     uniqueRatios_loop seen xs = xs"
proof (induction xs arbitrary: seen)
  case Nil
  show ?case by simp
next
  case (Cons a xs)
  have "\<forall>e \<in> set xs. ratio e \<noteq> [] \<and> ratio e \<notin> insert (ratio a) seen"
    using Cons.prems by (auto simp: image_iff)
  moreover have "distinct (map ratio xs)"
    using Cons.prems by simp
  ultimately have "uniqueRatios_loop (insert (ratio a) seen) xs = xs"
    by (rule Cons.IH)
  then show ?case
    using Cons.prems by simp
qed

lemma uniqueRatios_loop_idem:
  "uniqueRatios_loop {} (uniqueRatios_loop seen xs) = uniqueRatios_loop seen xs"
  by (rule uniqueRatios_loop_fixed)
     (auto dest: uniqueRatios_loop_member simp: uniqueRatios_loop_distinct)

section \<open>The classifier, the scores and the selection loop\<close>



lemma scoreOfValue_table: "scoreOfValue val = scoreByTable val"
  by (simp add: scoreOfValue_def scoreByTable_def scoreTable_def)

lemma choosePrimaryRatio_loop_split:
  "\<exists>pre post. b # rs = pre @ choosePrimaryRatio_loop b (scoreForPrimary b) rs # post
     \<and> (\<forall>x \<in> set pre. scoreForPrimary x < scoreForPrimary (choosePrimaryRatio_loop b (scoreForPrimary b) rs))
     \<and> (\<forall>x \<in> set post. scoreForPrimary x \<le> scoreForPrimary (choosePrimaryRatio_loop b (scoreForPrimary b) rs))"
proof (induction rs arbitrary: b)
  case Nil
  show ?case
    by (rule exI [of _ "[]"], rule exI [of _ "[]"]) simp
next
  case (Cons r rs)
  show ?case
  proof (cases "scoreForPrimary b < scoreForPrimary r")
    case True
    let ?res = "choosePrimaryRatio_loop r (scoreForPrimary r) rs"
    have eq: "choosePrimaryRatio_loop b (scoreForPrimary b) (r # rs) = ?res"
      using True by simp
    from Cons.IH [of r] obtain pre post where
      split: "r # rs = pre @ ?res # post"
      and before: "\<forall>x \<in> set pre. scoreForPrimary x < scoreForPrimary ?res"
      and after: "\<forall>x \<in> set post. scoreForPrimary x \<le> scoreForPrimary ?res"
      by blast
    have "scoreForPrimary r \<le> scoreForPrimary ?res"
    proof (cases pre)
      case Nil
      from split have "r # rs = ?res # post" unfolding Nil append_Nil .
      then have "r = ?res" by (rule list.inject [THEN iffD1, THEN conjunct1])
      then have "scoreForPrimary r = scoreForPrimary ?res" by (rule arg_cong)
      then show ?thesis by (rule eq_refl)
    next
      case (Cons a pre')
      from split have "r # rs = a # (pre' @ ?res # post)" unfolding Cons append_Cons .
      then have "a = r" by blast
      with before Cons show ?thesis by simp
    qed
    with True have "scoreForPrimary b < scoreForPrimary ?res" by simp
    with split before after show ?thesis
      unfolding eq by (intro exI [of _ "b # pre"] exI [of _ post]) simp
  next
    case False
    let ?res = "choosePrimaryRatio_loop b (scoreForPrimary b) rs"
    have eq: "choosePrimaryRatio_loop b (scoreForPrimary b) (r # rs) = ?res"
      using False by simp
    from Cons.IH [of b] obtain pre post where
      split: "b # rs = pre @ ?res # post"
      and before: "\<forall>x \<in> set pre. scoreForPrimary x < scoreForPrimary ?res"
      and after: "\<forall>x \<in> set post. scoreForPrimary x \<le> scoreForPrimary ?res"
      by blast
    show ?thesis
    proof (cases pre)
      case Nil
      from split have "b # rs = ?res # post" unfolding Nil append_Nil .
      then have "b = ?res" and "rs = post" by blast+
      then have sc: "scoreForPrimary ?res = scoreForPrimary b" and res: "?res = b" by simp_all
      from \<open>rs = post\<close> res False after sc show ?thesis
        unfolding eq by (intro exI [of _ "[]"] exI [of _ "r # post"]) simp
    next
      case (Cons a pre')
      from split have "b # rs = a # (pre' @ ?res # post)" unfolding Cons append_Cons .
      then have a: "a = b" and rs: "rs = pre' @ ?res # post" by blast+
      from before Cons a have "scoreForPrimary b < scoreForPrimary ?res" by simp
      with False have "scoreForPrimary r < scoreForPrimary ?res" by simp
      with rs before after Cons a show ?thesis
        unfolding eq by (intro exI [of _ "b # r # pre'"] exI [of _ post]) simp
    qed
  qed
qed

lemma choosePrimaryRatio_split:
  assumes "rs \<noteq> []"
  shows "\<exists>r pre post. choosePrimaryRatio (Some rs) = Some r \<and> rs = pre @ r # post
     \<and> (\<forall>x \<in> set pre. scoreForPrimary x < scoreForPrimary r)
     \<and> (\<forall>x \<in> set post. scoreForPrimary x \<le> scoreForPrimary r)"
proof -
  from assms obtain b bs where rs: "rs = b # bs" by (cases rs) auto
  from choosePrimaryRatio_loop_split [of b bs] show ?thesis
    unfolding rs choosePrimaryRatio_def by simp
qed

lemma primaryOf_member: "list \<noteq> [] \<Longrightarrow> primaryOf list \<in> Some ` set list"
proof (cases "truthy (choosePrimaryRatio (Some list))")
  case True
  assume "list \<noteq> []"
  from choosePrimaryRatio_split [OF this] obtain r where
    "choosePrimaryRatio (Some list) = Some r" and "r \<in> set list"
    by auto
  with True show ?thesis by (simp add: primaryOf_def)
next
  case False
  assume "list \<noteq> []"
  with False show ?thesis by (cases list) (simp_all add: primaryOf_def first_def)
qed

subsection \<open>The classifier and the table of the specification\<close>











section \<open>Concrete runs\<close>

lemma ratioToNumber_133: "ratioToNumber (str ''1.33:1'') = Some (Fin 748723438050345 (- 49))"
  by (simp add: ratioToNumber_def ratioQuotient_def prog_eval str_eval num_eval)

lemma ratioToNumber_239: "ratioToNumber (str ''2.39:1'') = Some (Fin 5381801554707743 (- 51))"
  by (simp add: ratioToNumber_def ratioQuotient_def prog_eval str_eval num_eval)

lemma scoreOfValue_133: "scoreOfValue (Fin 748723438050345 (- 49)) = 35"
  by (simp add: scoreOfValue_def withinTol_def num_eval)

lemma scoreOfValue_239: "scoreOfValue (Fin 5381801554707743 (- 51)) = 100"
  by (simp add: scoreOfValue_def withinTol_def num_eval)

lemma typeOfValue_239:
  "typeOfValue (Fin 5381801554707743 (- 51)) = named ''Scope'' ''Anamorphic widescreen, Scope''"
  by (simp add: typeOfValue_def withinTol_def num_eval)

lemma ratioToNumber_unparseable: "ratioToNumber (str ''n/a'') = None"
  by (simp add: ratioToNumber_def prog_eval str_eval isDigit_def)

lemma flat_text:
  "blockText (str ''Aspect ratio 1.85 : 1 (Flat)'') = str ''Aspect ratio 1.85 : 1 (Flat)''"
  by (simp add: blockText_def prog_eval str_eval)

lemma flat_cleaned: "cleaned (str ''Aspect ratio 1.85 : 1 (Flat)'') = str ''1.85 : 1 (Flat)''"
  by (simp add: prog_eval str_eval)

lemma flat_parts: "splitParts (str ''1.85 : 1 (Flat)'') [] 0 = [str ''1.85 : 1 (Flat)'']"
  by (simp add: prog_eval str_eval)

lemma flat_match:
  "jsMatch re_ratio False (str ''1.85 : 1 (Flat)'')
     = Some [str ''1.85 : 1'', str ''1.85'', str ''1'']"
  by (simp add: prog_eval str_eval isDigit_def)

lemma flat_ratio:
  "canonicalRatio (parseFloat (str ''1.85'')) (parseFloat (str ''1'')) = str ''1.85:1''"
  by (simp add: canonicalRatio_def num_eval str_def)

lemma flat_guard:
  "parseFloat (str ''1'') \<noteq> Fin 0 0 \<and> jsGt (parseFloat (str ''1.85'')) (Fin 0 0)"
  by (simp add: num_eval str_def)

lemma flat_note: "noteAfter (str ''1.85 : 1 (Flat)'') (str ''1.85 : 1'') = Some (str ''Flat'')"
  by (simp add: noteAfter_def prog_eval str_eval)

lemma flat_raw: "replaceAll (Star (Atom Space)) False [] (str ''1.85 : 1'') = str ''1.85:1''"
  by (simp add: str_eval)

lemma flat_entries:
  "partEntries (str ''1.85 : 1 (Flat)'')
     = [\<lparr>ratio = str ''1.85:1'', raw = str ''1.85:1'', note' = Some (str ''Flat'')\<rparr>]"
  using flat_guard
  by (simp add: partEntries_def ratioEntry_def flat_match flat_ratio flat_note flat_raw)

lemma flat_blocks:
  "findAspectRatioBlocks (str ''Aspect ratio 1.85 : 1 (Flat)'')
     = [str ''Aspect ratio 1.85 : 1 (Flat)'']"
  by (simp add: findAspectRatioBlocks_def patternBlocks_def patterns_def re_labelled_def
      re_testid_def stripScripts_def fallbackBlocks_def prog_eval str_eval)

lemma flat_block_entries:
  "parseRatiosFromBlock (str ''Aspect ratio 1.85 : 1 (Flat)'')
     = [\<lparr>ratio = str ''1.85:1'', raw = str ''1.85:1'', note' = Some (str ''Flat'')\<rparr>]"
proof -
  have "str ''Aspect ratio 1.85 : 1 (Flat)'' \<noteq> []"
    by (simp add: str_def)
  then show ?thesis
    by (simp add: parseRatiosFromBlock_def flat_text flat_cleaned flat_parts flat_entries)
qed

lemma flat_list:
  "parseAllAspectRatiosFromImdb (str ''Aspect ratio 1.85 : 1 (Flat)'') = [str ''1.85:1'']"
proof -
  have "str ''1.85:1'' \<noteq> []" by (simp add: str_def)
  then show ?thesis
    by (simp add: parseAllAspectRatiosFromImdb_def flat_blocks flat_block_entries uniqueRatios_def)
qed

lemma ratioToNumber_185: "ratioToNumber (str ''1.85:1'') = Some (Fin 4165829655317709 (- 51))"
  by (simp add: ratioToNumber_def ratioQuotient_def prog_eval str_eval num_eval)

lemma typeOfValue_185:
  "typeOfValue (Fin 4165829655317709 (- 51))
     = named ''Widescreen'' ''Widescreen (flat), Standard American Widescreen''"
  by (simp add: typeOfValue_def withinTol_def num_eval)






section \<open>Parts without an entry\<close>

lemma parseParts_append: "parseParts (ps @ qs) = parseParts ps @ parseParts qs"
  by (induction ps) simp_all

lemma zero_den_match:
  "jsMatch re_ratio False (str ''2.39:0'') = Some [str ''2.39:0'', str ''2.39'', str ''0'']"
  by (simp add: prog_eval str_eval isDigit_def)

lemma zero_num_match:
  "jsMatch re_ratio False (str ''0 : 1'') = Some [str ''0 : 1'', str ''0'', str ''1'']"
  by (simp add: prog_eval str_eval isDigit_def)

lemma parseFloat_zero: "parseFloat (str ''0'') = Fin 0 0"
  by (simp add: num_eval str_def)

lemma na_blocks: "findAspectRatioBlocks (str ''Aspect ratio: n/a'') = [str ''Aspect ratio: n/a'']"
  by (simp add: findAspectRatioBlocks_def patternBlocks_def patterns_def re_labelled_def re_testid_def
      stripScripts_def fallbackBlocks_def prog_eval str_eval)

lemma na_text: "blockText (str ''Aspect ratio: n/a'') = str ''Aspect ratio: n/a''"
  by (simp add: blockText_def prog_eval str_eval)

lemma na_cleaned: "cleaned (str ''Aspect ratio: n/a'') = str '': n/a''"
  by (simp add: prog_eval str_eval)

lemma na_parts: "splitParts (str '': n/a'') [] 0 = [str '': n/a'']"
  by (simp add: prog_eval str_eval)

lemma na_entries: "partEntries (str '': n/a'') = []"
  by (simp add: partEntries_def aliasEntry_def prog_eval str_eval isDigit_def)

lemma na_list: "parseAllAspectRatiosFromImdb (str ''Aspect ratio: n/a'') = []"
proof -
  have "str ''Aspect ratio: n/a'' \<noteq> []" by (simp add: str_def)
  then have "parseRatiosFromBlock (str ''Aspect ratio: n/a'') = []"
    by (simp add: parseRatiosFromBlock_def na_text na_cleaned na_parts na_entries)
  then show ?thesis
    by (simp add: parseAllAspectRatiosFromImdb_def na_blocks uniqueRatios_def)
qed

section \<open>Normalization leaves the parsed ratios unchanged\<close>

lemma plainChar_not_space: "plainChar c \<Longrightarrow> \<not> isSpace c"
  by (auto simp: plainChar_def isSpace_def isDigit_def)

lemma plainChar_no_label_start:
  "plainChar c \<Longrightarrow>
     \<not> cmatch True (Lit 67) c \<and> \<not> cmatch True (Lit 82) c \<and> \<not> cmatch True (Lit 83) c
     \<and> \<not> cmatch True (Lit 78) c \<and> \<not> cmatch True (Lit 80) c \<and> \<not> cmatch True Space c"
  by (auto simp: plainChar_def isSpace_def isDigit_def canonicalize_def)

lemma star_space_stuck:
  "\<not> cmatch ci Space c \<Longrightarrow> star_greedy (rmatch (Atom Space) ci) n (cs, p, c # r) = [(cs, p, c # r)]"
  by (cases n) (simp_all add: rest_def)

lemma star_space_end: "star_greedy (rmatch (Atom Space) ci) n (cs, p, []) = [(cs, p, [])]"
  by (cases n) (simp_all add: rest_def)

lemma trim_no_space: "\<forall>c \<in> set s. \<not> isSpace c \<Longrightarrow> trim s = s"
proof -
  assume a: "\<forall>c \<in> set s. \<not> isSpace c"
  have d: "dropWhile isSpace t = t" if "\<forall>c \<in> set t. \<not> isSpace c" for t
    using that by (cases t) simp_all
  from a show ?thesis by (simp add: trim_def d)
qed

lemma replace_colon_plain:
  "\<forall>c \<in> set s. \<not> isSpace c \<Longrightarrow> replaceAllFrom re_colon False (str '':'') p s = s"
proof (induction s arbitrary: p)
  case Nil
  show ?case by (simp add: re_colon_def star_space_end rest_def del: star_greedy.simps)
next
  case (Cons c s)
  then have c: "\<not> cmatch False Space c" and s: "\<forall>c \<in> set s. \<not> isSpace c" by simp_all
  have tl: "star_greedy (rmatch (Atom Space) False) n ([], q, s) = [([], q, s)]" for n q
    using s by (cases s) (simp_all add: star_space_end star_space_stuck del: star_greedy.simps)
  show ?case
    using c Cons.IH [OF s]
    by (simp add: re_colon_def star_space_stuck rest_def canonicalize_def str_def tl
        del: star_greedy.simps)
qed

lemma replace_spaces_plain:
  "\<forall>c \<in> set s. \<not> isSpace c \<Longrightarrow> replaceAllFrom re_spaces False rep p s = s"
proof (induction s arbitrary: p)
  case Nil
  show ?case by (simp add: re_spaces_def Plus_def rest_def)
next
  case (Cons c s)
  then show ?case by (simp add: re_spaces_def Plus_def rest_def)
qed

lemma trailing_none_at:
  "rest st = [] \<or> plainChar (hd (rest st)) \<Longrightarrow> rmatch re_trailingLabel True st = []"
proof (cases "rest st")
  case Nil
  then have "st = (fst st, fst (snd st), [])" by (simp add: rest_def prod_eq_iff)
  then obtain cs p where st: "st = (cs, p, [])" by blast
  show ?thesis
    unfolding st
    by (simp add: re_trailingLabel_def lits_def star_space_end rest_def del: star_greedy.simps)
next
  case (Cons c r)
  assume "rest st = [] \<or> plainChar (hd (rest st))"
  with Cons have pc: "plainChar c" by simp
  from Cons have "st = (fst st, fst (snd st), c # r)" by (simp add: rest_def prod_eq_iff)
  then obtain cs p where st: "st = (cs, p, c # r)" by blast
  show ?thesis
    unfolding st using plainChar_no_label_start [OF pc]
    by (simp add: re_trailingLabel_def lits_def star_space_stuck rest_def
        del: star_greedy.simps cmatch.simps)
qed

lemma scan_trailing_plain:
  "\<forall>c \<in> set s. plainChar c \<Longrightarrow> scan re_trailingLabel True p s = None"
  by (induction s arbitrary: p) (simp_all add: trailing_none_at rest_def)

lemma normalize_plain:
  assumes "\<forall>c \<in> set s. plainChar c" and "s \<noteq> []"
  shows "normalizeAspectRatioText (Some s) = Some s"
proof -
  from assms(1) have ns: "\<forall>c \<in> set s. \<not> isSpace c"
    using plainChar_not_space by blast
  show ?thesis
    using assms(2)
    by (simp add: normalizeAspectRatioText_def trim_no_space [OF ns] replaceAll_def
        replace_colon_plain [OF ns] replace_spaces_plain [OF ns] replaceFirst_def
        scan_trailing_plain [OF assms(1)])
qed

lemma natToDigits_digits: "c \<in> set (natToDigits n) \<Longrightarrow> isDigit c"
proof (induction n arbitrary: c rule: natToDigits.induct)
  case (1 n)
  show ?case
  proof (cases "n < 10")
    case True
    with "1.prems" show ?thesis
      by (subst (asm) natToDigits.simps) (simp add: isDigit_def)
  next
    case False
    from "1.prems" have "c \<in> set (natToDigits (n div 10)) \<or> c = 48 + n mod 10"
      using False by (subst (asm) natToDigits.simps) auto
    then show ?thesis
    proof
      assume "c \<in> set (natToDigits (n div 10))"
      with False show ?thesis by (rule "1.IH")
    next
      assume "c = 48 + n mod 10"
      then show ?thesis by (simp add: isDigit_def)
    qed
  qed
qed

lemma natToDigits_nonempty: "natToDigits n \<noteq> []"
  by (subst natToDigits.simps) simp

lemma fixed2Digits_plain: "c \<in> set (fixed2Digits n) \<Longrightarrow> plainChar c"
proof -
  assume "c \<in> set (fixed2Digits n)"
  then have "c \<in> set (padZeros (natToDigits n)) \<or> c = 46"
    by (auto simp: fixed2Digits_def insertPoint_def str_def dest: in_set_takeD in_set_dropD)
  then have "isDigit c \<or> c = 46"
    by (auto simp: padZeros_def isDigit_def dest: natToDigits_digits split: if_splits)
  then show ?thesis by (auto simp: plainChar_def)
qed

lemma exponentJoin_set:
  "c \<in> set (exponentJoin sig ex) \<Longrightarrow> c \<in> set sig \<or> c \<in> set ex \<or> c = 46 \<or> c = 101 \<or> c = 43"
  by (cases sig) (auto simp: exponentJoin_def str_def split: if_splits)

lemma exponentForm_plain: "c \<in> set (exponentForm v) \<Longrightarrow> plainChar c"
proof -
  let ?ds = "natToDigits (nat v)"
  let ?sig = "stripTrailingZeros ?ds"
  assume "c \<in> set (exponentForm v)"
  then have "c \<in> set ?sig \<or> c \<in> set (natToDigits (length ?ds - 1)) \<or> c = 46 \<or> c = 101 \<or> c = 43"
    unfolding exponentForm_def exponentDigits_def by (rule exponentJoin_set)
  moreover have "set ?sig \<subseteq> set ?ds"
    by (auto simp: stripTrailingZeros_def dest: set_dropWhileD)
  ultimately have "isDigit c \<or> c = 46 \<or> c = 101 \<or> c = 43"
    by (auto dest: natToDigits_digits)
  then show ?thesis by (auto simp: plainChar_def)
qed

lemma toFixed2_plain: "c \<in> set (toFixed2 (Fin m e)) \<Longrightarrow> plainChar c"
  by (auto simp: toFixed2_def numberToStringLarge_def str_def
      dest: fixed2Digits_plain exponentForm_plain split: if_splits)
     (simp_all add: plainChar_def)

lemmas normalize_eval = normalizeAspectRatioText_def re_colon_def re_spaces_def re_trailingLabel_def
  str_eval

lemma normalized_names:
  "normalized (str ''NaN'' @ str '':1'')"
  "normalized (str ''Infinity'' @ str '':1'')"
  "normalized (str ''-Infinity'' @ str '':1'')"
  by (simp_all add: normalized_def normalize_eval)

lemma normalized_toFixed2: "normalized (toFixed2 x @ str '':1'')"
proof (cases x)
  case (Fin m e)
  have "\<forall>c \<in> set (toFixed2 (Fin m e) @ str '':1''). plainChar c"
    by (auto dest: toFixed2_plain simp: str_def plainChar_def isDigit_def)
  moreover have "toFixed2 (Fin m e) @ str '':1'' \<noteq> []"
    by (simp add: str_def)
  ultimately show ?thesis
    unfolding Fin normalized_def by (rule normalize_plain)
qed (simp_all add: normalized_names toFixed2_def)

lemma normalized_aliases:
  "normalized (str ''1.37:1'')" "normalized (str ''1.33:1'')" "normalized (str ''1.78:1'')"
  unfolding normalized_def
  by (rule normalize_plain; simp add: str_def plainChar_def isDigit_def)+

lemma partEntries_normalized: "e \<in> set (partEntries p) \<Longrightarrow> normalized (ratio e)"
  by (auto simp: partEntries_def ratioEntry_def aliasEntry_def canonicalRatio_def
      normalized_toFixed2 normalized_aliases split: option.splits if_splits)

lemma parseParts_normalized: "e \<in> set (parseParts ps) \<Longrightarrow> normalized (ratio e)"
  by (induction ps) (auto dest: partEntries_normalized)

lemma parseRatiosFromBlock_normalized:
  "e \<in> set (parseRatiosFromBlock b) \<Longrightarrow> normalized (ratio e)"
  by (auto simp: parseRatiosFromBlock_def dest: parseParts_normalized split: if_splits)

lemma parseAll_normalized:
  "s \<in> set (parseAllAspectRatiosFromImdb html) \<Longrightarrow> normalized s"
  by (auto simp: parseAllAspectRatiosFromImdb_def uniqueRatios_def
      dest!: uniqueRatios_loop_member dest: parseRatiosFromBlock_normalized)

lemma parseAll_distinct: "distinct (parseAllAspectRatiosFromImdb html)"
  by (simp add: parseAllAspectRatiosFromImdb_def uniqueRatios_def uniqueRatios_loop_distinct)

section \<open>A complete run\<close>

lemma flat_normalized: "normalizeAspectRatioText (Some (str ''1.85:1'')) = Some (str ''1.85:1'')"
  by (rule normalize_plain) (simp_all add: str_def plainChar_def isDigit_def)

lemma flat_result:
  "fetchImdbAspectRatio (str ''tt0083658'')
       \<lparr>ok = True, status = 200, body = str ''Aspect ratio 1.85 : 1 (Flat)''\<rparr>
     = Inr \<lparr>aspectRatio = Some (str ''1.85:1''),
            displayText = str ''1.85:1 (Widescreen (flat), Standard American Widescreen)'',
            allAspectRatios = [str ''1.85:1''],
            mappedTypeShort = Some (str ''Widescreen''),
            mappedTypeLong = Some (str ''Widescreen (flat), Standard American Widescreen''),
            source = str ''imdb'',
            sourceUrl = str ''https://www.imdb.com/title/tt0083658/technical/''\<rparr>"
proof -
  have nonempty: "str ''1.85:1'' \<noteq> []"
    by (simp add: str_def)
  then have primary: "primaryOf [str ''1.85:1''] = Some (str ''1.85:1'')"
    by (simp add: primaryOf_def choosePrimaryRatio_def truthy_def)
  have type: "mapRatioToType (str ''1.85:1'')
      = named ''Widescreen'' ''Widescreen (flat), Standard American Widescreen''"
    by (simp add: mapRatioToType_def ratioToNumber_185 typeOfValue_185)
  have display: "displayPart (str ''1.85:1'')
      = str ''1.85:1 (Widescreen (flat), Standard American Widescreen)''"
    by (simp add: displayPart_def type named_def) (simp add: str_def)
  show ?thesis
    by (simp add: fetchImdbAspectRatio_def flat_list buildResult_def primary flat_normalized
        jsString_def type display named_def technicalUrl_def) (simp add: str_def)
qed

section \<open>Claims\<close>

text \<open>
  C2. On the fragment \<open>Aspect ratio 1.85 : 1 (Flat)\<close>, \<open>parseRatiosFromBlock\<close> returns
  exactly one entry; its ratio is \<open>1.85:1\<close> and its note is \<open>Flat\<close>, the text of the
  parenthesis that follows the matched ratio (its raw text is \<open>1.85:1\<close>).
\<close>

theorem parseRatiosFromBlock_flat:
  "parseRatiosFromBlock (str ''Aspect ratio 1.85 : 1 (Flat)'')
     = [\<lparr>ratio = str ''1.85:1'', raw = str ''1.85:1'', note' = Some (str ''Flat'')\<rparr>]"
proof -
  have "str ''Aspect ratio 1.85 : 1 (Flat)'' \<noteq> []"
    by (simp add: str_def)
  then show ?thesis
    by (simp add: parseRatiosFromBlock_def flat_text flat_cleaned flat_parts flat_entries)
qed




text \<open>
  C4. For every nonempty list of ratio strings, \<open>choosePrimaryRatio\<close> returns an element
  of the list, and the list splits around it: every element before it has a strictly
  smaller score and every element after it has a score that is not larger, so the
  earliest candidate of the highest score is chosen (the scan replaces the best only on
  \<open>>\<close>). The score of a ratio string whose value is \<open>val\<close> is the score of the
  preference table for \<open>val\<close>. On \<open>["1.33:1", "2.39:1"]\<close> the scores are 35 and 100 and
  the result is \<open>2.39:1\<close>.
\<close>

theorem choosePrimaryRatio_selects:
  "(rs \<noteq> [] \<longrightarrow>
      (\<exists>r pre post. choosePrimaryRatio (Some rs) = Some r \<and> rs = pre @ r # post
         \<and> (\<forall>x \<in> set pre. scoreForPrimary x < scoreForPrimary r)
         \<and> (\<forall>x \<in> set post. scoreForPrimary x \<le> scoreForPrimary r)))
   \<and> (ratioToNumber s = Some val \<longrightarrow> scoreForPrimary s = scoreByTable val)
   \<and> scoreForPrimary (str ''1.33:1'') = 35
   \<and> scoreForPrimary (str ''2.39:1'') = 100
   \<and> choosePrimaryRatio (Some [str ''1.33:1'', str ''2.39:1'']) = Some (str ''2.39:1'')"
proof -
  have scores: "scoreForPrimary (str ''1.33:1'') = 35" "scoreForPrimary (str ''2.39:1'') = 100"
    by (simp_all add: scoreForPrimary_def ratioToNumber_133 ratioToNumber_239
        scoreOfValue_133 scoreOfValue_239)
  have "choosePrimaryRatio (Some [str ''1.33:1'', str ''2.39:1'']) = Some (str ''2.39:1'')"
    by (simp add: choosePrimaryRatio_def scores)
  moreover have "ratioToNumber s = Some val \<longrightarrow> scoreForPrimary s = scoreByTable val"
    by (simp add: scoreForPrimary_def scoreOfValue_table)
  ultimately show ?thesis
    using choosePrimaryRatio_split [of rs] scores by blast
qed

theorem choosePrimaryRatio_selects_witness:
  "[str ''1.85:1'', str ''1.85:1''] \<noteq> []
   \<and> (\<exists>r pre post. choosePrimaryRatio (Some [str ''1.85:1'', str ''1.85:1'']) = Some r
        \<and> [str ''1.85:1'', str ''1.85:1''] = pre @ r # post
        \<and> (\<forall>x \<in> set pre. scoreForPrimary x < scoreForPrimary r)
        \<and> (\<forall>x \<in> set post. scoreForPrimary x \<le> scoreForPrimary r))
   \<and> ratioToNumber (str ''2.39:1'') = Some (Fin 5381801554707743 (- 51))
   \<and> scoreForPrimary (str ''2.39:1'') = scoreByTable (Fin 5381801554707743 (- 51))"
  using choosePrimaryRatio_selects
    [of "[str ''1.85:1'', str ''1.85:1'']" "str ''2.39:1''" "Fin 5381801554707743 (- 51)"]
  by (simp add: ratioToNumber_239)

text \<open>
  C5. \<open>uniqueRatios\<close> is idempotent and stable. Applying it twice gives what applying it
  once gives. The result is a subsequence of the input, so the entries kept are entries
  of the input, with their own \<open>raw\<close> and \<open>note\<close>, in their input order. No two entries
  kept have the same \<open>ratio\<close>, so every later entry with a ratio already seen is dropped,
  whatever its \<open>raw\<close> and \<open>note\<close>. And for every (non-empty) ratio value, the entry kept for
  it is the first entry of the input with that ratio.
\<close>

theorem uniqueRatios_idempotent_stable:
  "uniqueRatios (uniqueRatios xs) = uniqueRatios xs
   \<and> subseq (uniqueRatios xs) xs
   \<and> distinct (map ratio (uniqueRatios xs))
   \<and> (\<forall>r. r \<noteq> [] \<longrightarrow>
        find (\<lambda>e. ratio e = r) (uniqueRatios xs) = find (\<lambda>e. ratio e = r) xs)"
  unfolding uniqueRatios_def
  by (simp add: uniqueRatios_loop_idem uniqueRatios_loop_subseq uniqueRatios_loop_distinct
        uniqueRatios_loop_find)

theorem uniqueRatios_idempotent_stable_witness:
  "uniqueRatios
     [\<lparr>ratio = [50, 46, 51, 57, 58, 49], raw = [50, 46, 51, 57, 58, 49], note' = None\<rparr>,
      \<lparr>ratio = [50, 46, 51, 57, 58, 49], raw = [50, 46, 52, 58, 49], note' = Some [97]\<rparr>,
      \<lparr>ratio = [49, 46, 56, 53, 58, 49], raw = [49, 46, 56, 53, 58, 49], note' = None\<rparr>]
   = [\<lparr>ratio = [50, 46, 51, 57, 58, 49], raw = [50, 46, 51, 57, 58, 49], note' = None\<rparr>,
      \<lparr>ratio = [49, 46, 56, 53, 58, 49], raw = [49, 46, 56, 53, 58, 49], note' = None\<rparr>]
   \<and> [50, 46, 51, 57, 58, 49] \<noteq> ([] :: jsstring)
   \<and> find (\<lambda>e. ratio e = [50, 46, 51, 57, 58, 49])
        (uniqueRatios
          [\<lparr>ratio = [50, 46, 51, 57, 58, 49], raw = [50, 46, 51, 57, 58, 49], note' = None\<rparr>,
           \<lparr>ratio = [50, 46, 51, 57, 58, 49], raw = [50, 46, 52, 58, 49], note' = Some [97]\<rparr>,
           \<lparr>ratio = [49, 46, 56, 53, 58, 49], raw = [49, 46, 56, 53, 58, 49], note' = None\<rparr>])
      = Some \<lparr>ratio = [50, 46, 51, 57, 58, 49], raw = [50, 46, 51, 57, 58, 49], note' = None\<rparr>"
  using uniqueRatios_idempotent_stable
    [of "[\<lparr>ratio = [50, 46, 51, 57, 58, 49], raw = [50, 46, 51, 57, 58, 49], note' = None\<rparr>,
          \<lparr>ratio = [50, 46, 51, 57, 58, 49], raw = [50, 46, 52, 58, 49], note' = Some [97]\<rparr>,
          \<lparr>ratio = [49, 46, 56, 53, 58, 49], raw = [49, 46, 56, 53, 58, 49], note' = None\<rparr>]"]
  by (simp add: uniqueRatios_def)

text \<open>
  C6. When the list of ratio strings parsed from the document is empty, the extraction
  fails: \<open>fetchImdbAspectRatio\<close> throws an \<open>Error\<close> and returns no record, so no record
  with an empty \<open>allAspectRatios\<close> is ever built. The message of the error is
  \<open>Aspect ratio not found on IMDb\<close>, not \<open>Aspect ratio not found\<close>: the document
  \<open>Aspect ratio: n/a\<close>, which has the label and no ratio, shows it.
\<close>

theorem not_found_message_counterexample:
  "fetchImdbAspectRatio (str ''tt0083658'')
     \<lparr>ok = True, status = 200, body = str ''Aspect ratio: n/a''\<rparr>
     = Inl (Error (str ''Aspect ratio not found on IMDb''))
   \<and> fetchImdbAspectRatio (str ''tt0083658'')
     \<lparr>ok = True, status = 200, body = str ''Aspect ratio: n/a''\<rparr>
     \<noteq> Inl (Error (str ''Aspect ratio not found''))"
proof -
  have thrown: "fetchImdbAspectRatio (str ''tt0083658'')
     \<lparr>ok = True, status = 200, body = str ''Aspect ratio: n/a''\<rparr>
     = Inl (Error (str ''Aspect ratio not found on IMDb''))"
    by (simp add: fetchImdbAspectRatio_def na_list)
  have "str ''Aspect ratio not found on IMDb'' \<noteq> str ''Aspect ratio not found''"
    by (simp add: str_def)
  with thrown show ?thesis by simp
qed

theorem empty_list_fails:
  "(ok res \<longrightarrow> parseAllAspectRatiosFromImdb (body res) = [] \<longrightarrow>
      fetchImdbAspectRatio imdbId res = Inl (Error (str ''Aspect ratio not found on IMDb'')))
   \<and> (fetchImdbAspectRatio imdbId res = Inr r \<longrightarrow> allAspectRatios r \<noteq> [])"
  by (auto simp: fetchImdbAspectRatio_def buildResult_def split: if_splits)

theorem empty_list_fails_witness:
  "ok \<lparr>ok = True, status = 200, body = str ''Aspect ratio: n/a''\<rparr>
   \<and> parseAllAspectRatiosFromImdb
        (body \<lparr>ok = True, status = 200, body = str ''Aspect ratio: n/a''\<rparr>) = []
   \<and> fetchImdbAspectRatio (str ''tt0083658'')
        \<lparr>ok = True, status = 200, body = str ''Aspect ratio: n/a''\<rparr>
       = Inl (Error (str ''Aspect ratio not found on IMDb''))"
  using empty_list_fails
    [of "\<lparr>ok = True, status = 200, body = str ''Aspect ratio: n/a''\<rparr>" "str ''tt0083658''"]
  by (simp add: na_list)

text \<open>
  C7. Every result that \<open>fetchImdbAspectRatio\<close> returns has its \<open>aspectRatio\<close> among its
  \<open>allAspectRatios\<close>, and \<open>allAspectRatios\<close> has no duplicates: the primary is an element
  of the list, and \<open>normalizeAspectRatioText\<close> changes no string that the parser produces
  as a ratio.
\<close>

theorem result_invariants:
  "fetchImdbAspectRatio imdbId res = Inr r \<longrightarrow>
     aspectRatio r \<in> Some ` set (allAspectRatios r)
     \<and> distinct (allAspectRatios r)
     \<and> (\<forall>s \<in> set (allAspectRatios r). normalizeAspectRatioText (Some s) = Some s)"
proof
  let ?list = "parseAllAspectRatiosFromImdb (body res)"
  assume "fetchImdbAspectRatio imdbId res = Inr r"
  then have nonempty: "?list \<noteq> []" and r: "r = buildResult (technicalUrl imdbId) ?list"
    by (auto simp: fetchImdbAspectRatio_def split: if_splits)
  from primaryOf_member [OF nonempty] obtain s where
    s: "primaryOf ?list = Some s" and member: "s \<in> set ?list"
    by auto
  from member have "normalizeAspectRatioText (Some s) = Some s"
    using parseAll_normalized [of s] by (simp add: normalized_def)
  with s member have "aspectRatio r \<in> Some ` set (allAspectRatios r)"
    by (simp add: r buildResult_def)
  moreover have "distinct (allAspectRatios r)"
    by (simp add: r buildResult_def parseAll_distinct)
  moreover have "\<forall>s \<in> set (allAspectRatios r). normalizeAspectRatioText (Some s) = Some s"
    using parseAll_normalized by (simp add: r buildResult_def normalized_def)
  ultimately show "aspectRatio r \<in> Some ` set (allAspectRatios r)
     \<and> distinct (allAspectRatios r)
     \<and> (\<forall>s \<in> set (allAspectRatios r). normalizeAspectRatioText (Some s) = Some s)"
    by simp
qed

theorem result_invariants_witness:
  "fetchImdbAspectRatio (str ''tt0083658'')
       \<lparr>ok = True, status = 200, body = str ''Aspect ratio 1.85 : 1 (Flat)''\<rparr>
     = Inr \<lparr>aspectRatio = Some (str ''1.85:1''),
            displayText = str ''1.85:1 (Widescreen (flat), Standard American Widescreen)'',
            allAspectRatios = [str ''1.85:1''],
            mappedTypeShort = Some (str ''Widescreen''),
            mappedTypeLong = Some (str ''Widescreen (flat), Standard American Widescreen''),
            source = str ''imdb'',
            sourceUrl = str ''https://www.imdb.com/title/tt0083658/technical/''\<rparr>
   \<and> Some (str ''1.85:1'') \<in> Some ` set [str ''1.85:1'']
   \<and> distinct [str ''1.85:1'']
   \<and> normalizeAspectRatioText (Some (str ''1.85:1'')) = Some (str ''1.85:1'')"
  using result_invariants
    [of "str ''tt0083658''"
      "\<lparr>ok = True, status = 200, body = str ''Aspect ratio 1.85 : 1 (Flat)''\<rparr>"
      "\<lparr>aspectRatio = Some (str ''1.85:1''),
        displayText = str ''1.85:1 (Widescreen (flat), Standard American Widescreen)'',
        allAspectRatios = [str ''1.85:1''],
        mappedTypeShort = Some (str ''Widescreen''),
        mappedTypeLong = Some (str ''Widescreen (flat), Standard American Widescreen''),
        source = str ''imdb'',
        sourceUrl = str ''https://www.imdb.com/title/tt0083658/technical/''\<rparr>"]
  by (simp add: flat_result)

text \<open>
  C9. When the ratio pattern matches in a part and the parsed denominator is zero or the
  parsed numerator is not greater than zero, the part yields no entry: nothing is
  thrown, the alias tests are not tried for it, and the entries of the parts before and
  after it in the part list of the block are what they are without it.
\<close>

theorem malformed_token_dropped:
  "jsMatch re_ratio False p = Some m \<longrightarrow>
     (parseFloat (m ! 2) = Fin 0 0 \<or> \<not> jsGt (parseFloat (m ! 1)) (Fin 0 0)) \<longrightarrow>
     partEntries p = [] \<and> parseParts (ps @ p # qs) = parseParts ps @ parseParts qs"
  by (auto simp: partEntries_def ratioEntry_def parseParts_append)

theorem malformed_token_dropped_witness:
  "jsMatch re_ratio False (str ''2.39:0'') = Some [str ''2.39:0'', str ''2.39'', str ''0'']
   \<and> parseFloat ([str ''2.39:0'', str ''2.39'', str ''0''] ! 2) = Fin 0 0
   \<and> partEntries (str ''2.39:0'') = []
   \<and> parseParts ([] @ str ''2.39:0'' # [str ''1.85 : 1 (Flat)''])
       = [\<lparr>ratio = str ''1.85:1'', raw = str ''1.85:1'', note' = Some (str ''Flat'')\<rparr>]
   \<and> jsMatch re_ratio False (str ''0 : 1'') = Some [str ''0 : 1'', str ''0'', str ''1'']
   \<and> \<not> jsGt (parseFloat ([str ''0 : 1'', str ''0'', str ''1''] ! 1)) (Fin 0 0)
   \<and> partEntries (str ''0 : 1'') = []"
  using malformed_token_dropped
      [of "str ''2.39:0''" "[str ''2.39:0'', str ''2.39'', str ''0'']" "[]"
        "[str ''1.85 : 1 (Flat)'']"]
    malformed_token_dropped [of "str ''0 : 1''" "[str ''0 : 1'', str ''0'', str ''1'']" "[]" "[]"]
  by (simp add: zero_den_match zero_num_match parseFloat_zero flat_entries jsGt_def jsLe_def)

text \<open>
  C10. \<open>choosePrimaryRatio\<close> returns \<open>null\<close> on a missing or an empty list and does not
  throw. The record builder takes \<open>choosePrimaryRatio(list) || list[0]\<close>: for every
  nonempty list this is the selector's result when that is truthy and the first element
  of the list otherwise, and in both cases it is an element of the list.
\<close>

theorem choosePrimaryRatio_empty_guard:
  "choosePrimaryRatio None = None
   \<and> choosePrimaryRatio (Some []) = None
   \<and> (list \<noteq> [] \<longrightarrow>
        primaryOf list
          = (if truthy (choosePrimaryRatio (Some list)) then choosePrimaryRatio (Some list)
             else Some (hd list))
        \<and> primaryOf list \<in> Some ` set list)"
proof -
  have "primaryOf list
      = (if truthy (choosePrimaryRatio (Some list)) then choosePrimaryRatio (Some list)
         else Some (hd list))" if "list \<noteq> []"
    using that by (cases list) (simp_all add: primaryOf_def first_def)
  then show ?thesis
    using primaryOf_member [of list] by (simp add: choosePrimaryRatio_def)
qed

theorem choosePrimaryRatio_empty_guard_witness:
  "[[], str ''n/a''] \<noteq> []
   \<and> choosePrimaryRatio (Some [[], str ''n/a'']) = Some []
   \<and> \<not> truthy (choosePrimaryRatio (Some [[], str ''n/a'']))
   \<and> primaryOf [[], str ''n/a''] = Some []"
proof -
  have "ratioToNumber [] = None"
    by (simp add: ratioToNumber_def prog_eval str_eval)
  then have choice: "choosePrimaryRatio (Some [[], str ''n/a'']) = Some []"
    by (simp add: choosePrimaryRatio_def scoreForPrimary_def ratioToNumber_unparseable)
  then show ?thesis
    using choosePrimaryRatio_empty_guard [of "[[], str ''n/a'']"]
    by (simp add: truthy_def)
qed

end
